theory Spec2Isabelle
  imports Main "HOL-Library.Sublist"
begin

section \<open>Data model (src/src/App.tsx, lines 4-43)\<close>

datatype StatKey = Hp | Attack | Defense | SpecialAttack | SpecialDefense | Speed

text \<open>\<open>Record<StatKey, number>\<close>: one number per key; base stats are non-negative integers.\<close>

record Stats =
  hp :: nat
  attack :: nat
  defense :: nat
  specialAttack :: nat
  specialDefense :: nat
  speed :: nat

fun statOf :: "Stats \<Rightarrow> StatKey \<Rightarrow> nat" where
  "statOf st Hp = hp st"
| "statOf st Attack = attack st"
| "statOf st Defense = defense st"
| "statOf st SpecialAttack = specialAttack st"
| "statOf st SpecialDefense = specialDefense st"
| "statOf st Speed = speed st"

text \<open>
  The type \<open>Pokemon\<close>. The field \<open>id\<close> is called \<open>idNum\<close> here (\<open>id\<close> is the identity
  function of HOL); \<open>flavorText\<close> is optional.
\<close>

record Pokemon =
  idNum :: nat
  name :: string
  artwork :: string
  stats :: Stats
  moves :: "string list"
  flavorText :: "string option"

record PopularMoves =
  smogon :: "string list"
  vgc :: "string list"
  combined :: "string list"

datatype Mode = ModeMenu | ModeStat | ModeMoveCompare | ModeMoveTrueFalse | ModeDexGuess

text \<open>\<open>GuessSide | TrueFalse\<close>: the four values the state cell \<open>guess\<close> can hold besides null.\<close>

datatype Guess = GLeft | GRight | GTrue | GFalse

datatype MovePool = Popular | Smogon | Vgc | AllMoves

datatype Status = Loading | Ready | Revealing | Result | Gameover

definition STAT_KEYS :: "StatKey list" where
  "STAT_KEYS = [Hp, Attack, Defense, SpecialAttack, SpecialDefense, Speed]"

definition HIGH_SCORE_KEY_stat :: string where
  "HIGH_SCORE_KEY_stat = ''stat-guesser-high-score''"

definition HIGH_SCORE_KEY_compare :: string where
  "HIGH_SCORE_KEY_compare = ''move-compare-high-score''"

definition HIGH_SCORE_KEY_truefalse :: string where
  "HIGH_SCORE_KEY_truefalse = ''move-truefalse-high-score''"

definition HIGH_SCORE_KEY_dex :: string where
  "HIGH_SCORE_KEY_dex = ''dex-guess-high-score''"


section \<open>Answer normalisation (lines 76-81) and autocomplete (lines 283-290)\<close>

text \<open>
  Strings are byte strings. \<open>toLowerCase\<close> maps \<open>A-Z\<close> to \<open>a-z\<close>; every other character is
  left as it is and, unless it is a digit or a lower-case letter, deleted by the regular
  expression \<open>/[^a-z0-9]/g\<close> that follows. (JavaScript lower-cases two characters outside
  ASCII, U+0130 and U+212A, to text containing an ASCII letter; as bytes they are deleted
  like every other character outside ASCII.) \<open>trim\<close> strips ASCII white space at both
  ends.
\<close>

definition toLowerChar :: "char \<Rightarrow> char" where
  "toLowerChar c =
     (let n = (of_char c :: nat) in if 65 \<le> n \<and> n \<le> 90 then char_of (n + 32) else c)"

definition toLowerCase :: "string \<Rightarrow> string" where
  "toLowerCase s = map toLowerChar s"

definition isLowerAlnum :: "char \<Rightarrow> bool" where
  "isLowerAlnum c =
     (let n = (of_char c :: nat) in (97 \<le> n \<and> n \<le> 122) \<or> (48 \<le> n \<and> n \<le> 57))"

definition isSpaceChar :: "char \<Rightarrow> bool" where
  "isSpaceChar c = (of_char c \<in> {9, 10, 11, 12, 13, 32 :: nat})"

definition trim :: "string \<Rightarrow> string" where
  "trim s = rev (dropWhile isSpaceChar (rev (dropWhile isSpaceChar s)))"

definition normalizeAnswer :: "string \<Rightarrow> string" where
  "normalizeAnswer v = trim (filter isLowerAlnum (toLowerCase v))"

text \<open>\<open>a.startsWith(q)\<close> is \<open>prefix q a\<close>; \<open>slice(0, 8)\<close> is \<open>take 8\<close>.\<close>

definition dexSuggestions :: "Pokemon list \<Rightarrow> string \<Rightarrow> string list" where
  "dexSuggestions pool dexGuessText =
     (let query = normalizeAnswer dexGuessText
      in if query = [] then []
         else map name (take 8 (filter (\<lambda>mon. prefix query (normalizeAnswer (name mon))) pool)))"


section \<open>Sampler (lines 292-321)\<close>

text \<open>
  \<open>Math.random()\<close> is an oracle: the \<open>pos\<close>-th call of a run yields the natural number
  \<open>rnd pos\<close>. \<open>Math.floor(Math.random() * n)\<close> is any index below \<open>n\<close>, here
  \<open>rnd pos mod n\<close>; \<open>Math.random() > 0.5\<close> is any truth value, here the parity of
  \<open>rnd pos\<close>. Every function that draws takes the position of its first draw and returns the
  position after its last.
\<close>

type_synonym random = "nat \<Rightarrow> nat"

definition randomIndex :: "random \<Rightarrow> nat \<Rightarrow> nat \<Rightarrow> nat" where
  "randomIndex rnd pos n = rnd pos mod n"

definition randomCoin :: "random \<Rightarrow> nat \<Rightarrow> bool" where
  "randomCoin rnd pos = (rnd pos mod 2 = 1)"

text \<open>
  The loop condition \<open>excludeId && candidate.id === excludeId\<close>: an absent \<open>excludeId\<close> and
  the number 0 are both falsy.
\<close>

definition isExcluded :: "nat option \<Rightarrow> Pokemon \<Rightarrow> bool" where
  "isExcluded excludeId candidate =
     (case excludeId of None \<Rightarrow> False | Some e \<Rightarrow> e \<noteq> 0 \<and> idNum candidate = e)"

function pickRandomLoop ::
  "random \<Rightarrow> Pokemon list \<Rightarrow> nat option \<Rightarrow> Pokemon \<Rightarrow> nat \<Rightarrow> nat \<Rightarrow> Pokemon \<times> nat" where
  "pickRandomLoop rnd pool excludeId candidate guard pos =
     (if isExcluded excludeId candidate \<and> guard < 40
      then pickRandomLoop rnd pool excludeId
             (pool ! randomIndex rnd pos (length pool)) (guard + 1) (pos + 1)
      else (candidate, pos))"
  by pat_completeness auto
termination
  by (relation "measure (\<lambda>(rnd, pool, excludeId, candidate, guard, pos). 40 - guard)") auto

definition pickRandomPokemon ::
  "random \<Rightarrow> Pokemon list \<Rightarrow> nat option \<Rightarrow> nat \<Rightarrow> Pokemon option \<times> nat" where
  "pickRandomPokemon rnd pool excludeId pos =
     (if length pool = 0 then (None, pos)
      else (case pickRandomLoop rnd pool excludeId
                   (pool ! randomIndex rnd pos (length pool)) 0 (pos + 1) of
              (candidate, pos') \<Rightarrow> (Some candidate, pos')))"

text \<open>\<open>moveSet\<close> is the \<open>Set<string> | null\<close> of the active move pool; \<open>''\<close> means no move.\<close>

definition pickMoveFrom :: "random \<Rightarrow> Pokemon \<Rightarrow> string set option \<Rightarrow> nat \<Rightarrow> string \<times> nat" where
  "pickMoveFrom rnd mon moveSet pos =
     (let movesPool = (case moveSet of
                         Some ms \<Rightarrow> filter (\<lambda>move. move \<in> ms) (moves mon)
                       | None \<Rightarrow> moves mon)
      in if length movesPool = 0 then ('''', pos)
         else (movesPool ! randomIndex rnd pos (length movesPool), pos + 1))"

text \<open>\<open>!candidate?.flavorText\<close>: an absent and an empty flavour text are both falsy.\<close>

definition hasFlavorText :: "Pokemon \<Rightarrow> bool" where
  "hasFlavorText candidate =
     (case flavorText candidate of None \<Rightarrow> False | Some t \<Rightarrow> t \<noteq> [])"

function pickDexLoop :: "random \<Rightarrow> Pokemon list \<Rightarrow> Pokemon \<Rightarrow> nat \<Rightarrow> nat \<Rightarrow> Pokemon \<times> nat" where
  "pickDexLoop rnd pool candidate guard pos =
     (if \<not> hasFlavorText candidate \<and> guard < 40
      then pickDexLoop rnd pool (pool ! randomIndex rnd pos (length pool)) (guard + 1) (pos + 1)
      else (candidate, pos))"
  by pat_completeness auto
termination
  by (relation "measure (\<lambda>(rnd, pool, candidate, guard, pos). 40 - guard)") auto

definition pickDexPokemon :: "random \<Rightarrow> Pokemon list \<Rightarrow> nat \<Rightarrow> Pokemon option \<times> nat" where
  "pickDexPokemon rnd pool pos =
     (if length pool = 0 then (None, pos)
      else (case pickDexLoop rnd pool (pool ! randomIndex rnd pos (length pool)) 0 (pos + 1) of
              (candidate, pos') \<Rightarrow> (Some candidate, pos')))"


section \<open>Round generators (lines 323-420)\<close>

text \<open>
  Each generator is split in two: the part that draws (\<open>draw...\<close>, everything before the
  state setters, returning \<open>None\<close> where the source returns without setting anything) and
  the setters (\<open>start...\<close>, further down, on the session state). The drawn round also
  records the value of the local counter \<open>guard\<close> at the end of the redraw loop, and for the
  true/false round the local \<open>isTrue\<close>; neither is stored by the source.
\<close>

record StatRound =
  srLeft :: Pokemon
  srRight :: "Pokemon option"
  srStat :: StatKey
  srGuard :: nat

definition sameStat :: "Pokemon \<Rightarrow> Pokemon option \<Rightarrow> StatKey \<Rightarrow> bool" where
  "sameStat nextLeft nextRight nextStat =
     (case nextRight of
        None \<Rightarrow> False
      | Some r \<Rightarrow> statOf (stats nextLeft) nextStat = statOf (stats r) nextStat)"

function statRedrawLoop ::
  "random \<Rightarrow> Pokemon list \<Rightarrow> Pokemon \<Rightarrow> Pokemon option \<Rightarrow> StatKey \<Rightarrow> nat \<Rightarrow> nat
     \<Rightarrow> (Pokemon option \<times> StatKey \<times> nat) \<times> nat" where
  "statRedrawLoop rnd pool nextLeft nextRight nextStat guard pos =
     (if guard < 40 \<and> sameStat nextLeft nextRight nextStat
      then (let p = pickRandomPokemon rnd pool (Some (idNum nextLeft)) pos
            in statRedrawLoop rnd pool nextLeft (fst p)
                 (STAT_KEYS ! randomIndex rnd (snd p) (length STAT_KEYS))
                 (guard + 1) (snd p + 1))
      else ((nextRight, nextStat, guard), pos))"
  by pat_completeness auto
termination
  by (relation "measure (\<lambda>(rnd, pool, nextLeft, nextRight, nextStat, guard, pos). 40 - guard)")
     auto

definition drawStatRound ::
  "random \<Rightarrow> Pokemon list \<Rightarrow> Pokemon option \<Rightarrow> nat \<Rightarrow> StatRound option \<times> nat" where
  "drawStatRound rnd pool keep pos =
     (if length pool < 2 then (None, pos)
      else (case (case keep of Some k \<Rightarrow> (Some k, pos)
                             | None \<Rightarrow> pickRandomPokemon rnd pool None pos) of
              (None, pos1) \<Rightarrow> (None, pos1)
            | (Some nextLeft, pos1) \<Rightarrow>
                (case pickRandomPokemon rnd pool (Some (idNum nextLeft)) pos1 of
                   (None, pos2) \<Rightarrow> (None, pos2)
                 | (Some nextRight, pos2) \<Rightarrow>
                     (case statRedrawLoop rnd pool nextLeft (Some nextRight)
                             (STAT_KEYS ! randomIndex rnd pos2 (length STAT_KEYS))
                             0 (pos2 + 1) of
                        ((r, k, g), pos3) \<Rightarrow>
                          (Some \<lparr>srLeft = nextLeft, srRight = r, srStat = k, srGuard = g\<rparr>,
                           pos3)))))"

record MoveCompareRound =
  mcLeft :: Pokemon
  mcRight :: Pokemon
  mcMove :: string
  mcGuard :: nat

definition knowsMove :: "Pokemon option \<Rightarrow> string \<Rightarrow> bool" where
  "knowsMove rightPick movePick =
     (case rightPick of None \<Rightarrow> False | Some r \<Rightarrow> movePick \<in> set (moves r))"

function moveRedrawLoop ::
  "random \<Rightarrow> Pokemon list \<Rightarrow> Pokemon \<Rightarrow> string \<Rightarrow> Pokemon option \<Rightarrow> nat \<Rightarrow> nat
     \<Rightarrow> (Pokemon option \<times> nat) \<times> nat" where
  "moveRedrawLoop rnd pool leftPick movePick rightPick guard pos =
     (if rightPick \<noteq> None \<and> guard < 40 \<and> knowsMove rightPick movePick
      then (let p = pickRandomPokemon rnd pool (Some (idNum leftPick)) pos
            in moveRedrawLoop rnd pool leftPick movePick (fst p) (guard + 1) (snd p))
      else ((rightPick, guard), pos))"
  by pat_completeness auto
termination
  by (relation "measure (\<lambda>(rnd, pool, leftPick, movePick, rightPick, guard, pos). 40 - guard)")
     auto

function moveCompareLoop ::
  "random \<Rightarrow> Pokemon list \<Rightarrow> string set option \<Rightarrow> nat \<Rightarrow> nat
     \<Rightarrow> MoveCompareRound option \<times> nat" where
  "moveCompareLoop rnd pool moveSet attempts pos =
     (if attempts < 80
      then (case pickRandomPokemon rnd pool None pos of
              (None, pos1) \<Rightarrow> (None, pos1)
            | (Some leftPick, pos1) \<Rightarrow>
                (let m = pickMoveFrom rnd leftPick moveSet pos1
                 in if fst m = ''''
                    then moveCompareLoop rnd pool moveSet (attempts + 1) (snd m)
                    else (let p = pickRandomPokemon rnd pool (Some (idNum leftPick)) (snd m);
                              q = moveRedrawLoop rnd pool leftPick (fst m) (fst p) 0 (snd p)
                          in (case fst (fst q) of
                                None \<Rightarrow> moveCompareLoop rnd pool moveSet (attempts + 1) (snd q)
                              | Some rightPick \<Rightarrow>
                                  (Some \<lparr>mcLeft = leftPick, mcRight = rightPick,
                                         mcMove = fst m, mcGuard = snd (fst q)\<rparr>,
                                   snd q)))))
      else (None, pos))"
  by pat_completeness auto
termination
  by (relation "measure (\<lambda>(rnd, pool, moveSet, attempts, pos). 80 - attempts)") auto

definition drawMoveCompareRound ::
  "random \<Rightarrow> Pokemon list \<Rightarrow> string set option \<Rightarrow> nat \<Rightarrow> MoveCompareRound option \<times> nat" where
  "drawMoveCompareRound rnd pool moveSet pos =
     (if length pool < 2 then (None, pos) else moveCompareLoop rnd pool moveSet 0 pos)"

record TrueFalseRound =
  tfFocus :: Pokemon
  tfMove :: string
  tfIsTrue :: bool

function trueFalseLoop ::
  "random \<Rightarrow> Pokemon list \<Rightarrow> string set option \<Rightarrow> nat \<Rightarrow> nat
     \<Rightarrow> TrueFalseRound option \<times> nat" where
  "trueFalseLoop rnd pool moveSet attempts pos =
     (if attempts < 80
      then (case pickRandomPokemon rnd pool None pos of
              (None, pos1) \<Rightarrow> (None, pos1)
            | (Some pick, pos1) \<Rightarrow>
                (let m = pickMoveFrom rnd pick moveSet pos1
                 in if fst m = ''''
                    then trueFalseLoop rnd pool moveSet (attempts + 1) (snd m)
                    else if randomCoin rnd (snd m)
                    then (Some \<lparr>tfFocus = pick, tfMove = fst m, tfIsTrue = True\<rparr>, snd m + 1)
                    else (let p = pickRandomPokemon rnd pool (Some (idNum pick)) (snd m + 1)
                          in (case fst p of
                                None \<Rightarrow> trueFalseLoop rnd pool moveSet (attempts + 1) (snd p)
                              | Some other \<Rightarrow>
                                  (let f = pickMoveFrom rnd other moveSet (snd p)
                                   in if fst f = '''' \<or> fst f \<in> set (moves pick)
                                      then trueFalseLoop rnd pool moveSet (attempts + 1) (snd f)
                                      else (Some \<lparr>tfFocus = pick, tfMove = fst f,
                                                  tfIsTrue = False\<rparr>,
                                            snd f))))))
      else (None, pos))"
  by pat_completeness auto
termination
  by (relation "measure (\<lambda>(rnd, pool, moveSet, attempts, pos). 80 - attempts)") auto

definition drawTrueFalseRound ::
  "random \<Rightarrow> Pokemon list \<Rightarrow> string set option \<Rightarrow> nat \<Rightarrow> TrueFalseRound option \<times> nat" where
  "drawTrueFalseRound rnd pool moveSet pos =
     (if length pool = 0 then (None, pos) else trueFalseLoop rnd pool moveSet 0 pos)"


section \<open>Session state (the state cells of \<open>App\<close>, lines 133-161)\<close>

text \<open>
  One field per state cell that the engine reads or writes. \<open>dexTimerPending\<close> says
  whether the timeout held by \<open>dexTimerRef\<close> is still pending; \<open>localStorage\<close> maps a
  key to the number stored under it (absent, empty and non-numeric entries are \<open>None\<close>);
  \<open>rngPos\<close> counts the calls of \<open>Math.random()\<close> made so far. The cells \<open>feedback\<close> and
  \<open>error\<close> and the audio context only feed the display and are left out.
\<close>

record State =
  mode :: Mode
  pokemon :: "Pokemon list"
  popularMoves :: "PopularMoves option"
  status :: Status
  left :: "Pokemon option"
  right :: "Pokemon option"
  focus :: "Pokemon option"
  stat :: StatKey
  moveName :: string
  guess :: "Guess option"
  revealValues :: "nat \<times> nat"
  score :: nat
  compareScore :: nat
  trueFalseScore :: nat
  dexScore :: nat
  dexGuess :: string
  dexAnswer :: string
  lastKeptId :: "nat option"
  movePool :: MovePool
  dexTimerPending :: bool
  statHighScore :: nat
  compareHighScore :: nat
  trueFalseHighScore :: nat
  dexHighScore :: nat
  localStorage :: "string \<Rightarrow> nat option"
  rngPos :: nat

definition activeMovePool :: "State \<Rightarrow> string list option" where
  "activeMovePool s =
     (case popularMoves s of
        None \<Rightarrow> None
      | Some pm \<Rightarrow>
          if movePool s = AllMoves then None
          else if movePool s = Smogon then Some (smogon pm)
          else if movePool s = Vgc then Some (vgc pm)
          else Some (combined pm))"

definition activeMoveSet :: "State \<Rightarrow> string set option" where
  "activeMoveSet s = (case activeMovePool s of None \<Rightarrow> None | Some ms \<Rightarrow> Some (set ms))"


section \<open>Answer validators (lines 258-281)\<close>

definition currentLeftValue :: "State \<Rightarrow> nat" where
  "currentLeftValue s = (case left s of Some l \<Rightarrow> statOf (stats l) (stat s) | None \<Rightarrow> 0)"

definition currentRightValue :: "State \<Rightarrow> nat" where
  "currentRightValue s = (case right s of Some r \<Rightarrow> statOf (stats r) (stat s) | None \<Rightarrow> 0)"

definition isStatCorrect :: "State \<Rightarrow> bool" where
  "isStatCorrect s =
     (if guess s = None \<or> left s = None \<or> right s = None then False
      else if currentLeftValue s = currentRightValue s then False
      else if guess s = Some GLeft then currentLeftValue s > currentRightValue s
      else currentRightValue s > currentLeftValue s)"

definition isMoveCompareCorrect :: "State \<Rightarrow> bool" where
  "isMoveCompareCorrect s =
     (case (guess s, left s, right s) of
        (Some g, Some l, Some r) \<Rightarrow>
          if moveName s = '''' then False
          else (let leftHas = (moveName s \<in> set (moves l));
                    rightHas = (moveName s \<in> set (moves r))
                in if leftHas = rightHas then False
                   else if g = GLeft then leftHas else rightHas)
      | _ \<Rightarrow> False)"

definition isTrueFalseCorrect :: "State \<Rightarrow> bool" where
  "isTrueFalseCorrect s =
     (case (guess s, focus s) of
        (Some g, Some f) \<Rightarrow>
          if moveName s = '''' then False
          else (let hasMove = (moveName s \<in> set (moves f))
                in g = (if hasMove then GTrue else GFalse))
      | _ \<Rightarrow> False)"

definition isDexCorrect :: "State \<Rightarrow> bool" where
  "isDexCorrect s =
     (if dexAnswer s = '''' then False
      else normalizeAnswer (dexGuess s) = normalizeAnswer (dexAnswer s))"


section \<open>Round generators, the state setters (lines 338-342, 369-373, 391-407, 415-419)\<close>

definition startStatRound :: "random \<Rightarrow> Pokemon option \<Rightarrow> State \<Rightarrow> State" where
  "startStatRound rnd keep s =
     (case drawStatRound rnd (pokemon s) keep (rngPos s) of
        (None, pos) \<Rightarrow> s\<lparr>rngPos := pos\<rparr>
      | (Some r, pos) \<Rightarrow>
          s\<lparr>left := Some (srLeft r), right := srRight r, stat := srStat r, guess := None,
            revealValues := (0, 0), rngPos := pos\<rparr>)"

definition startMoveCompareRound :: "random \<Rightarrow> State \<Rightarrow> State" where
  "startMoveCompareRound rnd s =
     (case drawMoveCompareRound rnd (pokemon s) (activeMoveSet s) (rngPos s) of
        (None, pos) \<Rightarrow> s\<lparr>rngPos := pos\<rparr>
      | (Some r, pos) \<Rightarrow>
          s\<lparr>left := Some (mcLeft r), right := Some (mcRight r), moveName := mcMove r,
            guess := None, revealValues := (0, 0), rngPos := pos\<rparr>)"

definition startTrueFalseRound :: "random \<Rightarrow> State \<Rightarrow> State" where
  "startTrueFalseRound rnd s =
     (case drawTrueFalseRound rnd (pokemon s) (activeMoveSet s) (rngPos s) of
        (None, pos) \<Rightarrow> s\<lparr>rngPos := pos\<rparr>
      | (Some r, pos) \<Rightarrow>
          s\<lparr>focus := Some (tfFocus r), moveName := tfMove r, guess := None, rngPos := pos\<rparr>)"

definition startDexRound :: "random \<Rightarrow> State \<Rightarrow> State" where
  "startDexRound rnd s =
     (case pickDexPokemon rnd (pokemon s) (rngPos s) of
        (None, pos) \<Rightarrow> s\<lparr>rngPos := pos\<rparr>
      | (Some pick, pos) \<Rightarrow>
          s\<lparr>focus := Some pick, dexAnswer := name pick, dexGuess := '''', guess := None,
            status := Ready, rngPos := pos\<rparr>)"


section \<open>Event handlers and timer callbacks (lines 449-654)\<close>

definition RESULT_PAUSE :: nat where
  "RESULT_PAUSE = 1200"

text \<open>
  The result-phase effect (lines 479-528) arms a timeout of 1200 whenever the status is
  \<open>result\<close>; \<open>resultTimer\<close> is the delay of the pending timeout, if there is one.
\<close>

definition resultTimer :: "State \<Rightarrow> nat option" where
  "resultTimer s = (if status s \<noteq> Result then None else Some RESULT_PAUSE)"

text \<open>The creature kept for the next stat round (lines 485-487).\<close>

definition carryOf :: "State \<Rightarrow> Pokemon \<Rightarrow> Pokemon \<Rightarrow> Pokemon" where
  "carryOf s l r =
     (let winner = (if guess s = Some GLeft then l else r);
          loser = (if guess s = Some GLeft then r else l)
      in if Some (idNum winner) = lastKeptId s then loser else winner)"

text \<open>The callback of the result-phase timeout (lines 482-525).\<close>

definition resultTimeout :: "random \<Rightarrow> State \<Rightarrow> State" where
  "resultTimeout rnd s =
     (case mode s of
        ModeStat \<Rightarrow>
          (case (left s, right s) of
             (Some l, Some r) \<Rightarrow>
               if guess s \<noteq> None \<and> isStatCorrect s
               then (let carry = carryOf s l r
                     in (startStatRound rnd (Some carry)
                           (s\<lparr>score := score s + 1, lastKeptId := Some (idNum carry)\<rparr>))
                        \<lparr>status := Ready\<rparr>)
               else if \<not> isStatCorrect s
               then s\<lparr>statHighScore := max (statHighScore s) (score s), status := Gameover\<rparr>
               else s
           | _ \<Rightarrow>
               if \<not> isStatCorrect s
               then s\<lparr>statHighScore := max (statHighScore s) (score s), status := Gameover\<rparr>
               else s)
      | ModeMoveCompare \<Rightarrow>
          if left s \<noteq> None \<and> right s \<noteq> None \<and> guess s \<noteq> None \<and> isMoveCompareCorrect s
          then (startMoveCompareRound rnd (s\<lparr>compareScore := compareScore s + 1\<rparr>))
                 \<lparr>status := Ready\<rparr>
          else if \<not> isMoveCompareCorrect s
          then s\<lparr>compareHighScore := max (compareHighScore s) (compareScore s),
                 status := Gameover\<rparr>
          else s
      | ModeMoveTrueFalse \<Rightarrow>
          if focus s \<noteq> None \<and> guess s \<noteq> None \<and> isTrueFalseCorrect s
          then (startTrueFalseRound rnd (s\<lparr>trueFalseScore := trueFalseScore s + 1\<rparr>))
                 \<lparr>status := Ready\<rparr>
          else if \<not> isTrueFalseCorrect s
          then s\<lparr>trueFalseHighScore := max (trueFalseHighScore s) (trueFalseScore s),
                 status := Gameover\<rparr>
          else s
      | _ \<Rightarrow> s)"

definition handleGuess :: "Guess \<Rightarrow> State \<Rightarrow> State" where
  "handleGuess selection s =
     (if status s \<noteq> Ready then s
      else s\<lparr>guess := Some selection,
             status := (if mode s = ModeStat then Revealing else Result)\<rparr>)"

definition handleDexSubmit :: "State \<Rightarrow> State" where
  "handleDexSubmit s =
     (if dexAnswer s = '''' \<or> status s \<noteq> Ready then s
      else if isDexCorrect s
      then s\<lparr>dexScore := dexScore s + 1, status := Result, dexTimerPending := True\<rparr>
      else s\<lparr>dexHighScore := max (dexHighScore s) (dexScore s), status := Gameover\<rparr>)"

text \<open>The callback of the timeout armed by a correct dex answer (lines 601-604).\<close>

definition dexTimeout :: "random \<Rightarrow> State \<Rightarrow> State" where
  "dexTimeout rnd s = (startDexRound rnd s)\<lparr>status := Ready, dexTimerPending := False\<rparr>"

definition handleRestart :: "random \<Rightarrow> State \<Rightarrow> State" where
  "handleRestart rnd s =
     (let s1 = s\<lparr>status := Ready, guess := None, revealValues := (0, 0),
                 dexTimerPending := False\<rparr>
      in case mode s of
           ModeStat \<Rightarrow> startStatRound rnd None (s1\<lparr>score := 0, lastKeptId := None\<rparr>)
         | ModeMoveCompare \<Rightarrow> startMoveCompareRound rnd (s1\<lparr>compareScore := 0\<rparr>)
         | ModeMoveTrueFalse \<Rightarrow> startTrueFalseRound rnd (s1\<lparr>trueFalseScore := 0\<rparr>)
         | ModeDexGuess \<Rightarrow> startDexRound rnd (s1\<lparr>dexScore := 0\<rparr>)
         | ModeMenu \<Rightarrow> s1)"

definition handleModeChange :: "Mode \<Rightarrow> State \<Rightarrow> State" where
  "handleModeChange nextMode s =
     s\<lparr>mode := nextMode, status := Ready, guess := None, left := None, right := None,
       focus := None, moveName := '''', revealValues := (0, 0), dexGuess := '''',
       dexAnswer := '''', dexTimerPending := False\<rparr>"

text \<open>
  The last frame of the reveal animation (lines 449-468): at \<open>progress = 1\<close> the eased
  factor is 1, the shown values are the two stat values and the status becomes \<open>result\<close>.
  Earlier frames only change \<open>revealValues\<close>.
\<close>

definition revealDone :: "State \<Rightarrow> State" where
  "revealDone s =
     (case (left s, right s) of
        (Some l, Some r) \<Rightarrow>
          if status s \<noteq> Revealing \<or> mode s \<noteq> ModeStat then s
          else s\<lparr>revealValues := (statOf (stats l) (stat s), statOf (stats r) (stat s)),
                 status := Result\<rparr>
      | _ \<Rightarrow> s)"


section \<open>Effects and the event loop\<close>

text \<open>The effect that starts a round when none is shown (lines 422-447).\<close>

definition roundStartEffect :: "random \<Rightarrow> State \<Rightarrow> State" where
  "roundStartEffect rnd s =
     (if status s \<noteq> Ready \<or> length (pokemon s) = 0 then s
      else (case mode s of
              ModeStat \<Rightarrow>
                if left s = None \<and> right s = None then startStatRound rnd None s else s
            | ModeMoveCompare \<Rightarrow>
                if left s = None \<and> right s = None then startMoveCompareRound rnd s else s
            | ModeMoveTrueFalse \<Rightarrow> if focus s = None then startTrueFalseRound rnd s else s
            | ModeDexGuess \<Rightarrow> if focus s = None then startDexRound rnd s else s
            | ModeMenu \<Rightarrow> s))"

text \<open>
  The values the effect depends on; it runs again only when one of them has changed. The
  generator callbacks in its dependency list change with the catalog and with the set of
  the active move pool, which React compares by identity: the set is rebuilt exactly when
  another list of the curated document, or none, becomes the active pool.
\<close>

definition activeMovePoolSource :: "State \<Rightarrow> MovePool option" where
  "activeMovePoolSource s =
     (case popularMoves s of
        None \<Rightarrow> None
      | Some pm \<Rightarrow>
          if movePool s = AllMoves then None
          else if movePool s = Smogon then Some Smogon
          else if movePool s = Vgc then Some Vgc
          else Some Popular)"

definition roundStartDeps ::
  "State \<Rightarrow> Status \<times> Pokemon list \<times> Mode \<times> Pokemon option \<times> Pokemon option \<times> Pokemon option
     \<times> MovePool option" where
  "roundStartDeps s =
     (status s, pokemon s, mode s, left s, right s, focus s, activeMovePoolSource s)"

text \<open>
  The second effect of \<open>useHighScore\<close> (lines 96-100), once per mode. It runs after a
  high score has changed; run when none has changed, it writes the numbers the store
  already holds.
\<close>

definition persistOne :: "string \<Rightarrow> nat \<Rightarrow> (string \<Rightarrow> nat option) \<Rightarrow> (string \<Rightarrow> nat option)" where
  "persistOne key highScore store = (if highScore > 0 then store(key \<mapsto> highScore) else store)"

definition persistEffect :: "State \<Rightarrow> State" where
  "persistEffect s =
     s\<lparr>localStorage :=
         persistOne HIGH_SCORE_KEY_dex (dexHighScore s)
           (persistOne HIGH_SCORE_KEY_truefalse (trueFalseHighScore s)
             (persistOne HIGH_SCORE_KEY_compare (compareHighScore s)
               (persistOne HIGH_SCORE_KEY_stat (statHighScore s) (localStorage s))))\<rparr>"

text \<open>The first effect of \<open>useHighScore\<close> (lines 86-94): the value read at startup.\<close>

definition loadHighScore :: "(string \<Rightarrow> nat option) \<Rightarrow> string \<Rightarrow> nat" where
  "loadHighScore store key = (case store key of Some parsed \<Rightarrow> parsed | None \<Rightarrow> 0)"

text \<open>
  A new session (page load): every cell has its initial value, the high scores are read
  from the store, the dataset and the curated moves have been fetched (\<open>None\<close> when the
  fetch failed). The effect of lines 192-196 runs before the curated moves arrive and sets
  the move pool to \<open>all\<close>.
\<close>

definition mount ::
  "Pokemon list option \<Rightarrow> PopularMoves option \<Rightarrow> (string \<Rightarrow> nat option) \<Rightarrow> nat \<Rightarrow> State" where
  "mount dataset popular store pos =
     \<lparr>mode = ModeMenu,
      pokemon = (case dataset of Some ps \<Rightarrow> ps | None \<Rightarrow> []),
      popularMoves = popular,
      status = (case dataset of Some ps \<Rightarrow> Ready | None \<Rightarrow> Loading),
      left = None, right = None, focus = None, stat = Attack, moveName = '''',
      guess = None, revealValues = (0, 0),
      score = 0, compareScore = 0, trueFalseScore = 0, dexScore = 0,
      dexGuess = '''', dexAnswer = '''', lastKeptId = None, movePool = AllMoves,
      dexTimerPending = False,
      statHighScore = loadHighScore store HIGH_SCORE_KEY_stat,
      compareHighScore = loadHighScore store HIGH_SCORE_KEY_compare,
      trueFalseHighScore = loadHighScore store HIGH_SCORE_KEY_truefalse,
      dexHighScore = loadHighScore store HIGH_SCORE_KEY_dex,
      localStorage = store, rngPos = pos\<rparr>"

datatype Event =
    EvGuess Guess
  | EvDexInput string
  | EvDexSubmit
  | EvRestart
  | EvModeChange Mode
  | EvMovePool MovePool
  | EvRevealDone
  | EvResultTimeout
  | EvDexTimeout
  | EvReload "Pokemon list option" "PopularMoves option"

text \<open>
  What each event does before the effects run. A timer callback runs only while its timer
  is pending; the move-pool buttons other than \<open>All\<close> are disabled without curated moves.
  The other handlers can be called in every state, which covers every state in which the
  page offers their button or form.
\<close>

fun dispatch :: "random \<Rightarrow> Event \<Rightarrow> State \<Rightarrow> State" where
  "dispatch rnd (EvGuess selection) s = handleGuess selection s"
| "dispatch rnd (EvDexInput txt) s = s\<lparr>dexGuess := txt\<rparr>"
| "dispatch rnd EvDexSubmit s = handleDexSubmit s"
| "dispatch rnd EvRestart s = handleRestart rnd s"
| "dispatch rnd (EvModeChange nextMode) s = handleModeChange nextMode s"
| "dispatch rnd (EvMovePool p) s =
     (if p \<noteq> AllMoves \<and> popularMoves s = None then s else s\<lparr>movePool := p\<rparr>)"
| "dispatch rnd EvRevealDone s = revealDone s"
| "dispatch rnd EvResultTimeout s = (if resultTimer s = None then s else resultTimeout rnd s)"
| "dispatch rnd EvDexTimeout s = (if dexTimerPending s then dexTimeout rnd s else s)"
| "dispatch rnd (EvReload dataset popular) s = mount dataset popular (localStorage s) (rngPos s)"

definition step :: "random \<Rightarrow> Event \<Rightarrow> State \<Rightarrow> State" where
  "step rnd ev s =
     (let s1 = dispatch rnd ev s;
          s2 = (if roundStartDeps s1 \<noteq> roundStartDeps s then roundStartEffect rnd s1 else s1)
      in persistEffect s2)"

fun run :: "random \<Rightarrow> Event list \<Rightarrow> State \<Rightarrow> State" where
  "run rnd [] s = s"
| "run rnd (ev # evs) s = run rnd evs (step rnd ev s)"


declare pickRandomLoop.simps [simp del]
declare pickDexLoop.simps [simp del]
declare statRedrawLoop.simps [simp del]
declare moveRedrawLoop.simps [simp del]
declare moveCompareLoop.simps [simp del]
declare trueFalseLoop.simps [simp del]


section \<open>What the scoreboard shows (lines 782-846)\<close>

text \<open>
  The running score and the high score of a mode, as the scoreboard of that mode shows
  them, the number stored under the mode's key, and the verdict the feedback effect
  (lines 551-576) reads in each mode. The menu has no score.
\<close>

definition scoreOf :: "Mode \<Rightarrow> State \<Rightarrow> nat" where
  "scoreOf m s =
     (case m of
        ModeStat \<Rightarrow> score s
      | ModeMoveCompare \<Rightarrow> compareScore s
      | ModeMoveTrueFalse \<Rightarrow> trueFalseScore s
      | ModeDexGuess \<Rightarrow> dexScore s
      | ModeMenu \<Rightarrow> 0)"

definition highScoreOf :: "Mode \<Rightarrow> State \<Rightarrow> nat" where
  "highScoreOf m s =
     (case m of
        ModeStat \<Rightarrow> statHighScore s
      | ModeMoveCompare \<Rightarrow> compareHighScore s
      | ModeMoveTrueFalse \<Rightarrow> trueFalseHighScore s
      | ModeDexGuess \<Rightarrow> dexHighScore s
      | ModeMenu \<Rightarrow> 0)"

definition storedHighScore :: "Mode \<Rightarrow> State \<Rightarrow> nat" where
  "storedHighScore m s =
     (case m of
        ModeStat \<Rightarrow> loadHighScore (localStorage s) HIGH_SCORE_KEY_stat
      | ModeMoveCompare \<Rightarrow> loadHighScore (localStorage s) HIGH_SCORE_KEY_compare
      | ModeMoveTrueFalse \<Rightarrow> loadHighScore (localStorage s) HIGH_SCORE_KEY_truefalse
      | ModeDexGuess \<Rightarrow> loadHighScore (localStorage s) HIGH_SCORE_KEY_dex
      | ModeMenu \<Rightarrow> 0)"

definition verdict :: "State \<Rightarrow> bool" where
  "verdict s =
     (case mode s of
        ModeStat \<Rightarrow> isStatCorrect s
      | ModeMoveCompare \<Rightarrow> isMoveCompareCorrect s
      | ModeMoveTrueFalse \<Rightarrow> isTrueFalseCorrect s
      | ModeDexGuess \<Rightarrow> isDexCorrect s
      | ModeMenu \<Rightarrow> False)"

text \<open>The cells that make up the question on display.\<close>

definition currentRound ::
  "State \<Rightarrow> Pokemon option \<times> Pokemon option \<times> Pokemon option \<times> StatKey \<times> string" where
  "currentRound s = (left s, right s, focus s, stat s, moveName s)"

text \<open>
  What the generator called by the result-phase callback on a correct guess (lines 489,
  503, 517) draws, as the cells of the question it fills in; \<open>None\<close> when the generator
  gives up and sets nothing.
\<close>

definition drawnNextRound ::
  "random \<Rightarrow> State
     \<Rightarrow> (Pokemon option \<times> Pokemon option \<times> Pokemon option \<times> StatKey \<times> string) option" where
  "drawnNextRound rnd s =
     (case mode s of
        ModeStat \<Rightarrow>
          (case (left s, right s) of
             (Some l, Some r) \<Rightarrow>
               map_option
                 (\<lambda>round. (Some (srLeft round), srRight round, focus s, srStat round,
                            moveName s))
                 (fst (drawStatRound rnd (pokemon s) (Some (carryOf s l r)) (rngPos s)))
           | _ \<Rightarrow> None)
      | ModeMoveCompare \<Rightarrow>
          map_option
            (\<lambda>round. (Some (mcLeft round), Some (mcRight round), focus s, stat s,
                       mcMove round))
            (fst (drawMoveCompareRound rnd (pokemon s) (activeMoveSet s) (rngPos s)))
      | ModeMoveTrueFalse \<Rightarrow>
          map_option
            (\<lambda>round. (left s, right s, Some (tfFocus round), stat s, tfMove round))
            (fst (drawTrueFalseRound rnd (pokemon s) (activeMoveSet s) (rngPos s)))
      | _ \<Rightarrow> None)"

text \<open>The in-memory high scores agree with the store, as they do once a session has loaded.\<close>

definition storeConsistent :: "State \<Rightarrow> bool" where
  "storeConsistent s =
     (statHighScore s = loadHighScore (localStorage s) HIGH_SCORE_KEY_stat
      \<and> compareHighScore s = loadHighScore (localStorage s) HIGH_SCORE_KEY_compare
      \<and> trueFalseHighScore s = loadHighScore (localStorage s) HIGH_SCORE_KEY_truefalse
      \<and> dexHighScore s = loadHighScore (localStorage s) HIGH_SCORE_KEY_dex)"


text \<open>No stored number is above the high score it belongs to.\<close>

definition storeBehind :: "State \<Rightarrow> bool" where
  "storeBehind s =
     (loadHighScore (localStorage s) HIGH_SCORE_KEY_stat \<le> statHighScore s
      \<and> loadHighScore (localStorage s) HIGH_SCORE_KEY_compare \<le> compareHighScore s
      \<and> loadHighScore (localStorage s) HIGH_SCORE_KEY_truefalse \<le> trueFalseHighScore s
      \<and> loadHighScore (localStorage s) HIGH_SCORE_KEY_dex \<le> dexHighScore s)"


section \<open>Sample data\<close>

definition bulbasaur :: Pokemon where
  "bulbasaur =
     \<lparr>idNum = 1, name = ''bulbasaur'', artwork = ''1.png'',
      stats = \<lparr>hp = 45, attack = 49, defense = 49, specialAttack = 65, specialDefense = 65,
               speed = 45\<rparr>,
      moves = [''tackle'', ''vine-whip''], flavorText = Some ''A strange seed.''\<rparr>"

definition charmander :: Pokemon where
  "charmander =
     \<lparr>idNum = 4, name = ''charmander'', artwork = ''4.png'',
      stats = \<lparr>hp = 39, attack = 52, defense = 43, specialAttack = 60, specialDefense = 50,
               speed = 65\<rparr>,
      moves = [''scratch'', ''ember''], flavorText = Some ''Prefers hot places.''\<rparr>"

definition squirtle :: Pokemon where
  "squirtle =
     \<lparr>idNum = 7, name = ''squirtle'', artwork = ''7.png'',
      stats = \<lparr>hp = 44, attack = 48, defense = 65, specialAttack = 50, specialDefense = 64,
               speed = 43\<rparr>,
      moves = [''tackle'', ''water-gun''], flavorText = Some ''Withdraws into its shell.''\<rparr>"

text \<open>Two creatures with the same value on every stat and one move, known by both.\<close>

definition mew :: Pokemon where
  "mew =
     \<lparr>idNum = 151, name = ''mew'', artwork = ''151.png'',
      stats = \<lparr>hp = 100, attack = 100, defense = 100, specialAttack = 100,
               specialDefense = 100, speed = 100\<rparr>,
      moves = [''psychic''], flavorText = Some ''So rare.''\<rparr>"

definition celebi :: Pokemon where
  "celebi =
     \<lparr>idNum = 251, name = ''celebi'', artwork = ''251.png'',
      stats = \<lparr>hp = 100, attack = 100, defense = 100, specialAttack = 100,
               specialDefense = 100, speed = 100\<rparr>,
      moves = [''psychic''], flavorText = Some ''It came from the future.''\<rparr>"

definition starters :: "Pokemon list" where
  "starters = [charmander, bulbasaur, squirtle]"

definition mythicals :: "Pokemon list" where
  "mythicals = [mew, celebi]"

text \<open>The oracle whose \<open>i\<close>-th draw is \<open>i\<close>.\<close>

definition rndCount :: random where
  "rndCount = (\<lambda>i. i)"

definition emptyStore :: "string \<Rightarrow> nat option" where
  "emptyStore = (\<lambda>key. None)"

text \<open>A fresh session on the three starters, and the same session after a failed load.\<close>

definition freshSession :: State where
  "freshSession = mount (Some starters) None emptyStore 0"

definition failedSession :: State where
  "failedSession = mount None None emptyStore 0"

text \<open>
  A stat streak on the starters: entering the mode, a correct guess on the first round
  (right, bulbasaur's defense against charmander's) and its reveal and result phases, then
  a correct guess on the second round (left, bulbasaur's special defense).
\<close>

definition statRound1 :: State where
  "statRound1 = run rndCount [EvModeChange ModeStat] freshSession"

definition statRound2 :: State where
  "statRound2 = run rndCount [EvGuess GRight, EvRevealDone, EvResultTimeout] statRound1"

definition statRound2Result :: State where
  "statRound2Result = run rndCount [EvGuess GLeft, EvRevealDone] statRound2"

definition statRound3 :: State where
  "statRound3 = run rndCount [EvResultTimeout] statRound2Result"

text \<open>A wrong guess on the second round of the streak, after its reveal phase.\<close>

definition statRound2Wrong :: State where
  "statRound2Wrong = run rndCount [EvGuess GRight, EvRevealDone] statRound2"

text \<open>
  The streak lost (the wrong guess and its result phase), then the player going back to
  the menu and entering the stat mode again.
\<close>

definition statLost :: State where
  "statLost = run rndCount [EvResultTimeout] statRound2Wrong"

definition statReentered :: State where
  "statReentered = run rndCount [EvModeChange ModeMenu, EvModeChange ModeStat] statLost"


text \<open>The re-entered streak after one more guess (right, charmander's attack), a correct one.\<close>

definition statReenteredWon :: State where
  "statReenteredWon =
     run rndCount [EvGuess GRight, EvRevealDone, EvResultTimeout] statReentered"

text \<open>
  A curated document whose VGC list holds no move that a starter knows, and a move-match
  session with it: entering the mode (the move pool is \<open>all\<close>), a correct guess on the
  first round (left, charmander knows ember), the VGC pool chosen during the result pause,
  the callback of the pause, and a second guess on what is then on display.
\<close>

definition curated :: PopularMoves where
  "curated =
     \<lparr>smogon = [''ember'', ''protect''], vgc = [''protect''],
      combined = [''ember'', ''protect'']\<rparr>"

definition compareRound1 :: State where
  "compareRound1 =
     run rndCount [EvModeChange ModeMoveCompare] (mount (Some starters) (Some curated) emptyStore 0)"

definition compareResult :: State where
  "compareResult = run rndCount [EvGuess GLeft, EvMovePool Vgc] compareRound1"

definition compareStale :: State where
  "compareStale = run rndCount [EvResultTimeout] compareResult"

definition compareStaleAgain :: State where
  "compareStaleAgain = run rndCount [EvGuess GLeft, EvResultTimeout] compareStale"


section \<open>Answer normalisation: idempotence and insensitivity\<close>

lemma toLowerChar_fixes_alnum: "isLowerAlnum c \<Longrightarrow> toLowerChar c = c"
  by (auto simp: toLowerChar_def isLowerAlnum_def Let_def)

lemma toLowerChar_idem: "toLowerChar (toLowerChar c) = toLowerChar c"
  by (cases c) (auto simp: toLowerChar_def Let_def)

lemma alnum_not_space: "isLowerAlnum c \<Longrightarrow> \<not> isSpaceChar c"
  by (auto simp: isSpaceChar_def isLowerAlnum_def Let_def)

lemma trim_no_space:
  assumes "\<forall>c \<in> set s. \<not> isSpaceChar c"
  shows "trim s = s"
proof -
  have front: "dropWhile isSpaceChar s = s"
    using assms by (cases s) auto
  have "\<forall>c \<in> set (rev s). \<not> isSpaceChar c"
    using assms by simp
  then have rear: "dropWhile isSpaceChar (rev s) = rev s"
    by (cases "rev s") auto
  show ?thesis
    by (simp add: trim_def front rear)
qed

lemma normalizeAnswer_filter: "normalizeAnswer v = filter isLowerAlnum (toLowerCase v)"
  unfolding normalizeAnswer_def
  by (rule trim_no_space) (auto dest: alnum_not_space)

lemma toLowerCase_alnum: "\<forall>c \<in> set s. isLowerAlnum c \<Longrightarrow> toLowerCase s = s"
  by (induction s) (auto simp: toLowerCase_def toLowerChar_fixes_alnum)

lemma normalizeAnswer_fixes_alnum:
  assumes "\<forall>c \<in> set s. isLowerAlnum c"
  shows "normalizeAnswer s = s"
proof -
  have "filter isLowerAlnum s = s"
    using assms by (induction s) auto
  then show ?thesis
    using assms by (simp add: normalizeAnswer_filter toLowerCase_alnum)
qed

text \<open>
  C7. \<open>normalizeAnswer\<close> is idempotent; it does not see the case of its input (lower-casing
  the input first changes nothing) nor its punctuation (deleting every character that is
  not a letter or a digit first changes nothing); and it sends \<open>Mr. Mime\<close> and \<open>mr-mime\<close>
  to the same string.
\<close>

theorem normalizeAnswer_idempotent_insensitive:
  "normalizeAnswer (normalizeAnswer s) = normalizeAnswer s
   \<and> normalizeAnswer (toLowerCase s) = normalizeAnswer s
   \<and> normalizeAnswer (filter (\<lambda>c. isLowerAlnum (toLowerChar c)) s) = normalizeAnswer s
   \<and> normalizeAnswer ''Mr. Mime'' = normalizeAnswer ''mr-mime''"
proof -
  have idem: "normalizeAnswer (normalizeAnswer s) = normalizeAnswer s"
    by (rule normalizeAnswer_fixes_alnum) (simp add: normalizeAnswer_filter)
  have lower: "normalizeAnswer (toLowerCase s) = normalizeAnswer s"
    by (simp add: normalizeAnswer_filter toLowerCase_def toLowerChar_idem o_def)
  have punct:
    "normalizeAnswer (filter (\<lambda>c. isLowerAlnum (toLowerChar c)) s) = normalizeAnswer s"
    by (simp add: normalizeAnswer_filter toLowerCase_def filter_map o_def)
  have mime: "normalizeAnswer ''Mr. Mime'' = normalizeAnswer ''mr-mime''"
    by code_simp
  from idem lower punct mime show ?thesis
    by blast
qed
section \<open>Autocomplete\<close>

text \<open>
  C8 as stated fails: for the partial guess \<open>Bu\<close> on the three starters the helper
  suggests \<open>bulbasaur\<close>, whose normalised form is not a prefix of the normalised guess
  (the guess is a prefix of the name).
\<close>

theorem dexSuggestions_prefix_counterexample:
  "dexSuggestions starters ''Bu'' = [''bulbasaur'']
   \<and> \<not> prefix (normalizeAnswer ''bulbasaur'') (normalizeAnswer ''Bu'')"
  by code_simp

text \<open>
  C8, amended. The helper returns at most 8 names; each is the name of a catalog entry, and
  the normalised partial guess is non-empty and a prefix of the name's normalised form.
\<close>

theorem dexSuggestions_at_most_8_extend_guess:
  "length (dexSuggestions pool partialGuess) \<le> 8
   \<and> (\<forall>n \<in> set (dexSuggestions pool partialGuess).
         n \<in> name ` set pool
         \<and> normalizeAnswer partialGuess \<noteq> []
         \<and> prefix (normalizeAnswer partialGuess) (normalizeAnswer n))"
proof (cases "normalizeAnswer partialGuess = []")
  case True
  then show ?thesis
    by (simp add: dexSuggestions_def)
next
  case False
  let ?q = "normalizeAnswer partialGuess"
  let ?hits = "filter (\<lambda>mon. prefix ?q (normalizeAnswer (name mon))) pool"
  have eq: "dexSuggestions pool partialGuess = map name (take 8 ?hits)"
    using False by (simp add: dexSuggestions_def)
  have len: "length (map name (take 8 ?hits)) \<le> 8"
    by simp
  have "set (take 8 ?hits) \<subseteq> set ?hits"
    by (rule set_take_subset)
  then have hits: "\<forall>mon \<in> set (take 8 ?hits). mon \<in> set pool \<and> prefix ?q (normalizeAnswer (name mon))"
    by auto
  have "\<forall>n \<in> set (map name (take 8 ?hits)).
          n \<in> name ` set pool \<and> ?q \<noteq> [] \<and> prefix ?q (normalizeAnswer n)"
  proof
    fix n
    assume "n \<in> set (map name (take 8 ?hits))"
    then obtain mon where mon: "mon \<in> set (take 8 ?hits)" and n: "n = name mon"
      by auto
    from hits mon have "mon \<in> set pool" and "prefix ?q (normalizeAnswer (name mon))"
      by blast+
    with n False show "n \<in> name ` set pool \<and> ?q \<noteq> [] \<and> prefix ?q (normalizeAnswer n)"
      by simp
  qed
  with len show ?thesis
    unfolding eq by (rule conjI)
qed

theorem dexSuggestions_at_most_8_extend_guess_witness:
  "''bulbasaur'' \<in> set (dexSuggestions starters ''Bu'')
   \<and> length (dexSuggestions starters ''Bu'') \<le> 8
   \<and> ''bulbasaur'' \<in> name ` set starters
   \<and> prefix (normalizeAnswer ''Bu'') (normalizeAnswer ''bulbasaur'')"
proof -
  have hit: "''bulbasaur'' \<in> set (dexSuggestions starters ''Bu'')"
    by code_simp
  note inst = dexSuggestions_at_most_8_extend_guess [of starters "''Bu''"]
  from inst have len: "length (dexSuggestions starters ''Bu'') \<le> 8"
    by (rule conjunct1)
  from inst have "\<forall>n \<in> set (dexSuggestions starters ''Bu'').
      n \<in> name ` set starters \<and> normalizeAnswer ''Bu'' \<noteq> []
      \<and> prefix (normalizeAnswer ''Bu'') (normalizeAnswer n)"
    by (rule conjunct2)
  from bspec [OF this hit] hit len show ?thesis
    by simp
qed
section \<open>Guesses outside the ready state\<close>

text \<open>
  C10. While the status is not \<open>ready\<close> (loading, revealing, result or game over),
  \<open>handleGuess\<close> and \<open>handleDexSubmit\<close> return the state they were given: status, scores,
  round and recorded guess, like every other cell, are unchanged.
\<close>

theorem guess_when_not_ready_is_noop:
  "status s \<noteq> Ready \<Longrightarrow> handleGuess selection s = s \<and> handleDexSubmit s = s"
  by (simp add: handleGuess_def handleDexSubmit_def)


theorem guess_when_not_ready_is_noop_witness:
  "status statRound2Result = Result
   \<and> handleGuess GRight statRound2Result = statRound2Result
   \<and> handleDexSubmit statRound2Result = statRound2Result"
proof -
  have st: "status statRound2Result = Result"
    by code_simp
  then have "status statRound2Result \<noteq> Ready"
    by simp
  from guess_when_not_ready_is_noop [OF this] st show ?thesis
    by simp
qed




section \<open>Sampler: what a draw returns\<close>

lemma randomIndex_less: "0 < n \<Longrightarrow> randomIndex rnd pos n < n"
  by (simp add: randomIndex_def)

lemma pickRandomLoop_in_pool:
  "pool \<noteq> [] \<Longrightarrow> candidate \<in> set pool
   \<Longrightarrow> fst (pickRandomLoop rnd pool excludeId candidate guard pos) \<in> set pool"
proof (induction rnd pool excludeId candidate guard pos rule: pickRandomLoop.induct)
  case (1 rnd pool excludeId candidate guard pos)
  show ?case
  proof (cases "isExcluded excludeId candidate \<and> guard < 40")
    case True
    have "pool ! randomIndex rnd pos (length pool) \<in> set pool"
      using "1.prems"(1) by (simp add: randomIndex_less)
    with True "1.IH" "1.prems"(1) show ?thesis
      by (subst pickRandomLoop.simps) simp
  next
    case False
    with "1.prems"(2) show ?thesis
      by (subst pickRandomLoop.simps) auto
  qed
qed

lemma pickRandomPokemon_empty: "pool = [] \<Longrightarrow> pickRandomPokemon rnd pool excludeId pos = (None, pos)"
  by (simp add: pickRandomPokemon_def)

lemma pickRandomPokemon_in_pool:
  assumes "pool \<noteq> []"
  shows "\<exists>c. fst (pickRandomPokemon rnd pool excludeId pos) = Some c \<and> c \<in> set pool"
proof -
  let ?first = "pool ! randomIndex rnd pos (length pool)"
  have "?first \<in> set pool"
    using assms by (simp add: randomIndex_less)
  then have "fst (pickRandomLoop rnd pool excludeId ?first 0 (pos + 1)) \<in> set pool"
    using assms by (intro pickRandomLoop_in_pool)
  then show ?thesis
    using assms by (auto simp: pickRandomPokemon_def split: prod.splits)
qed

lemma pickRandomPokemon_Some_in_pool:
  "fst (pickRandomPokemon rnd pool excludeId pos) = Some c \<Longrightarrow> c \<in> set pool"
  using pickRandomPokemon_in_pool [of pool rnd excludeId pos]
  by (cases "pool = []") (auto simp: pickRandomPokemon_empty)

lemma pickMoveFrom_known:
  assumes "fst (pickMoveFrom rnd mon moveSet pos) \<noteq> ''''"
  shows "fst (pickMoveFrom rnd mon moveSet pos) \<in> set (moves mon)"
proof -
  let ?movesPool = "case moveSet of Some ms \<Rightarrow> filter (\<lambda>move. move \<in> ms) (moves mon)
                                   | None \<Rightarrow> moves mon"
  have sub: "set ?movesPool \<subseteq> set (moves mon)"
    by (cases moveSet) auto
  have nonempty: "?movesPool \<noteq> []"
    using assms by (auto simp: pickMoveFrom_def Let_def)
  then have "?movesPool ! randomIndex rnd pos (length ?movesPool) \<in> set ?movesPool"
    by (simp add: randomIndex_less)
  with sub nonempty show ?thesis
    by (auto simp: pickMoveFrom_def Let_def)
qed


section \<open>Stat duel: the drawn round\<close>

lemma statRedrawLoop_exit:
  "statRedrawLoop rnd pool nextLeft nextRight nextStat guard pos = ((r, k, g), pos')
   \<Longrightarrow> g < 40 \<Longrightarrow> \<not> sameStat nextLeft r k"
proof (induction rnd pool nextLeft nextRight nextStat guard pos rule: statRedrawLoop.induct)
  case (1 rnd pool nextLeft nextRight nextStat guard pos)
  note eq = "1.prems"(1) [unfolded statRedrawLoop.simps [of rnd pool nextLeft nextRight nextStat guard pos]]
  show ?case
  proof (cases "guard < 40 \<and> sameStat nextLeft nextRight nextStat")
    case True
    with eq "1.IH" "1.prems"(2) show ?thesis
      by (simp add: Let_def)
  next
    case False
    with eq "1.prems"(2) show ?thesis
      by auto
  qed
qed

lemma statRedrawLoop_right:
  "statRedrawLoop rnd pool nextLeft nextRight nextStat guard pos = ((r, k, g), pos')
   \<Longrightarrow> pool \<noteq> [] \<Longrightarrow> nextRight \<noteq> None \<Longrightarrow> r \<noteq> None"
proof (induction rnd pool nextLeft nextRight nextStat guard pos rule: statRedrawLoop.induct)
  case (1 rnd pool nextLeft nextRight nextStat guard pos)
  note eq = "1.prems"(1) [unfolded statRedrawLoop.simps [of rnd pool nextLeft nextRight nextStat guard pos]]
  show ?case
  proof (cases "guard < 40 \<and> sameStat nextLeft nextRight nextStat")
    case True
    have "fst (pickRandomPokemon rnd pool (Some (idNum nextLeft)) pos) \<noteq> None"
      using pickRandomPokemon_in_pool [OF "1.prems"(2), of rnd "Some (idNum nextLeft)" pos] by auto
    with True eq "1.IH" "1.prems"(2) show ?thesis
      by (simp add: Let_def)
  next
    case False
    with eq "1.prems"(3) show ?thesis
      by auto
  qed
qed

text \<open>
  C1 as stated fails: on the catalog of two creatures with equal stats the generator runs
  out of redraws and presents mew against celebi on a stat where both have 100.
\<close>

theorem drawStatRound_equal_stats_counterexample:
  "2 \<le> length mythicals
   \<and> fst (drawStatRound rndCount mythicals None 0) =
       Some \<lparr>srLeft = mew, srRight = Some celebi, srStat = SpecialDefense, srGuard = 40\<rparr>
   \<and> statOf (stats mew) SpecialDefense = statOf (stats celebi) SpecialDefense"
  by code_simp

text \<open>
  C1, amended. In every drawn stat-duel round whose redraw loop ended before the guard
  reached 40, the two creatures differ on the chosen stat.
\<close>

theorem drawStatRound_distinct_unless_guard_exhausted:
  assumes "drawStatRound rnd pool keep pos = (Some round, pos')"
    and "srGuard round < 40"
  shows "\<exists>r. srRight round = Some r
              \<and> statOf (stats (srLeft round)) (srStat round) \<noteq> statOf (stats r) (srStat round)"
proof -
  from assms(1) have big: "\<not> length pool < 2"
    by (auto simp: drawStatRound_def split: if_splits)
  then have nonempty: "pool \<noteq> []"
    by auto
  from assms(1) big obtain nextRight pos2 where
    loop: "statRedrawLoop rnd pool (srLeft round) (Some nextRight)
             (STAT_KEYS ! randomIndex rnd pos2 (length STAT_KEYS)) 0 (pos2 + 1)
           = ((srRight round, srStat round, srGuard round), pos')"
    by (auto simp: drawStatRound_def split: if_splits prod.splits option.splits)
  from statRedrawLoop_exit [OF loop assms(2)]
  have differ: "\<not> sameStat (srLeft round) (srRight round) (srStat round)" .
  from statRedrawLoop_right [OF loop nonempty] obtain r where r: "srRight round = Some r"
    by auto
  with differ show ?thesis
    by (simp add: sameStat_def)
qed

theorem drawStatRound_distinct_unless_guard_exhausted_witness:
  "drawStatRound rndCount starters None 0 =
     (Some \<lparr>srLeft = charmander, srRight = Some bulbasaur, srStat = Defense, srGuard = 0\<rparr>, 3)
   \<and> statOf (stats charmander) Defense \<noteq> statOf (stats bulbasaur) Defense"
proof -
  let ?round = "\<lparr>srLeft = charmander, srRight = Some bulbasaur, srStat = Defense, srGuard = 0\<rparr>"
  have draw: "drawStatRound rndCount starters None 0 = (Some ?round, 3)"
    by code_simp
  have "srGuard ?round < 40"
    by simp
  from drawStatRound_distinct_unless_guard_exhausted [OF draw this] draw show ?thesis
    by simp
qed



lemma statRedrawLoop_right_in_pool:
  "statRedrawLoop rnd pool nextLeft nextRight nextStat guard pos = ((r, k, g), pos')
   \<Longrightarrow> pool \<noteq> [] \<Longrightarrow> nextRight \<in> Some ` set pool \<Longrightarrow> r \<in> Some ` set pool"
proof (induction rnd pool nextLeft nextRight nextStat guard pos rule: statRedrawLoop.induct)
  case (1 rnd pool nextLeft nextRight nextStat guard pos)
  note eq = "1.prems"(1) [unfolded statRedrawLoop.simps [of rnd pool nextLeft nextRight nextStat guard pos]]
  show ?case
  proof (cases "guard < 40 \<and> sameStat nextLeft nextRight nextStat")
    case True
    have "fst (pickRandomPokemon rnd pool (Some (idNum nextLeft)) pos) \<in> Some ` set pool"
      using pickRandomPokemon_in_pool [OF "1.prems"(2), of rnd "Some (idNum nextLeft)" pos]
      by auto
    with True eq "1.IH" "1.prems"(2) show ?thesis
      by (simp add: Let_def)
  next
    case False
    with eq "1.prems"(3) show ?thesis
      by auto
  qed
qed

text \<open>With a creature to keep and a catalog of two or more, a round is always drawn.\<close>

lemma drawStatRound_keep:
  assumes "2 \<le> length pool"
  shows "\<exists>round pos'. drawStatRound rnd pool (Some k) pos = (Some round, pos')
           \<and> srLeft round = k \<and> srRight round \<in> Some ` set pool"
proof -
  from assms have nonempty: "pool \<noteq> []"
    by auto
  obtain nextRight pos2 where
    pick: "pickRandomPokemon rnd pool (Some (idNum k)) pos = (Some nextRight, pos2)"
    and mem: "nextRight \<in> set pool"
    using pickRandomPokemon_in_pool [OF nonempty, of rnd "Some (idNum k)" pos]
    by (cases "pickRandomPokemon rnd pool (Some (idNum k)) pos") auto
  let ?loop = "statRedrawLoop rnd pool k (Some nextRight)
                 (STAT_KEYS ! randomIndex rnd pos2 (length STAT_KEYS)) 0 (pos2 + 1)"
  obtain r st g pos3 where loop: "?loop = ((r, st, g), pos3)"
    by (cases ?loop) auto
  have "r \<in> Some ` set pool"
    using statRedrawLoop_right_in_pool [OF loop nonempty] mem by simp
  with assms pick loop show ?thesis
    by (simp add: drawStatRound_def)
qed

lemma startStatRound_keep:
  assumes "2 \<le> length (pokemon s)"
  shows "left (startStatRound rnd (Some k) s) = Some k
         \<and> right (startStatRound rnd (Some k) s) \<in> Some ` set (pokemon s)"
proof -
  from drawStatRound_keep [OF assms, of rnd k "rngPos s"] obtain round pos' where
    "drawStatRound rnd (pokemon s) (Some k) (rngPos s) = (Some round, pos')"
    "srLeft round = k" "srRight round \<in> Some ` set (pokemon s)"
    by blast
  then show ?thesis
    by (simp add: startStatRound_def)
qed


section \<open>Move match: the drawn round\<close>

lemma moveRedrawLoop_exit:
  "moveRedrawLoop rnd pool leftPick movePick rightPick guard pos = ((r, g), pos')
   \<Longrightarrow> g < 40 \<Longrightarrow> \<not> knowsMove r movePick"
proof (induction rnd pool leftPick movePick rightPick guard pos rule: moveRedrawLoop.induct)
  case (1 rnd pool leftPick movePick rightPick guard pos)
  note eq = "1.prems"(1) [unfolded moveRedrawLoop.simps [of rnd pool leftPick movePick rightPick guard pos]]
  show ?case
  proof (cases "rightPick \<noteq> None \<and> guard < 40 \<and> knowsMove rightPick movePick")
    case True
    with eq "1.IH" "1.prems"(2) show ?thesis
      by (simp add: Let_def)
  next
    case False
    with eq "1.prems"(2) show ?thesis
      by (auto simp: knowsMove_def)
  qed
qed

lemma moveCompareLoop_sound:
  "moveCompareLoop rnd pool moveSet attempts pos = (Some round, pos')
   \<Longrightarrow> mcMove round \<noteq> [] \<and> mcMove round \<in> set (moves (mcLeft round))
       \<and> (mcGuard round < 40 \<longrightarrow> mcMove round \<notin> set (moves (mcRight round)))"
proof (induction rnd pool moveSet attempts pos rule: moveCompareLoop.induct)
  case (1 rnd pool moveSet attempts pos)
  note eq = "1.prems" [unfolded moveCompareLoop.simps [of rnd pool moveSet attempts pos]]
  from eq have tries: "attempts < 80"
    by (auto split: if_splits)
  obtain pickL pos1 where pickL: "pickRandomPokemon rnd pool None pos = (pickL, pos1)"
    by (cases "pickRandomPokemon rnd pool None pos")
  with eq tries obtain leftPick where leftPick: "pickL = Some leftPick"
    by (cases pickL) auto
  let ?m = "pickMoveFrom rnd leftPick moveSet pos1"
  show ?case
  proof (cases "fst ?m = []")
    case True
    with eq tries pickL leftPick
    have "moveCompareLoop rnd pool moveSet (attempts + 1) (snd ?m) = (Some round, pos')"
      by (simp add: Let_def)
    with "1.IH"(1) [OF tries pickL [symmetric] leftPick refl True] show ?thesis
      by simp
  next
    case False
    let ?p = "pickRandomPokemon rnd pool (Some (idNum leftPick)) (snd ?m)"
    let ?q = "moveRedrawLoop rnd pool leftPick (fst ?m) (fst ?p) 0 (snd ?p)"
    show ?thesis
    proof (cases "fst (fst ?q)")
      case None
      with eq tries pickL leftPick False
      have "moveCompareLoop rnd pool moveSet (attempts + 1) (snd ?q) = (Some round, pos')"
        by (simp add: Let_def)
      with "1.IH"(2) [OF tries pickL [symmetric] leftPick refl False refl refl None]
      show ?thesis
        by simp
    next
      case (Some rightPick)
      with eq tries pickL leftPick False
      have round: "round = \<lparr>mcLeft = leftPick, mcRight = rightPick, mcMove = fst ?m,
                             mcGuard = snd (fst ?q)\<rparr>"
        by (simp add: Let_def)
      have known: "fst ?m \<in> set (moves leftPick)"
        using False by (rule pickMoveFrom_known)
      have q: "?q = ((fst (fst ?q), snd (fst ?q)), snd ?q)"
        by simp
      have "snd (fst ?q) < 40 \<longrightarrow> fst ?m \<notin> set (moves rightPick)"
        using moveRedrawLoop_exit [OF q] Some by (auto simp: knowsMove_def)
      with round known False show ?thesis
        by simp
    qed
  qed
qed

text \<open>
  C2 as stated fails: on the catalog of two creatures that both know the one move there is,
  the generator runs out of redraws and presents a round in which left and right both know
  the move.
\<close>

theorem drawMoveCompareRound_both_know_counterexample:
  "fst (drawMoveCompareRound rndCount mythicals None 0) =
     Some \<lparr>mcLeft = mew, mcRight = celebi, mcMove = ''psychic'', mcGuard = 40\<rparr>
   \<and> ''psychic'' \<in> set (moves mew)
   \<and> ''psychic'' \<in> set (moves celebi)"
  by code_simp

text \<open>
  C2, amended. In every drawn move-match round the left creature knows the chosen move;
  the right creature does not know it whenever the inner redraw loop ended before its guard
  reached 40. So exactly one of the two knows the move in every such round.
\<close>

theorem drawMoveCompareRound_left_knows_right_not_unless_guard_exhausted:
  assumes "drawMoveCompareRound rnd pool moveSet pos = (Some round, pos')"
  shows "mcMove round \<in> set (moves (mcLeft round))
         \<and> (mcGuard round < 40 \<longrightarrow> mcMove round \<notin> set (moves (mcRight round)))"
proof -
  from assms have "moveCompareLoop rnd pool moveSet 0 pos = (Some round, pos')"
    by (auto simp: drawMoveCompareRound_def split: if_splits)
  from moveCompareLoop_sound [OF this] show ?thesis
    by simp
qed

theorem drawMoveCompareRound_left_knows_right_not_unless_guard_exhausted_witness:
  "drawMoveCompareRound rndCount starters None 0 =
     (Some \<lparr>mcLeft = charmander, mcRight = squirtle, mcMove = ''ember'', mcGuard = 0\<rparr>, 3)
   \<and> ''ember'' \<in> set (moves charmander)
   \<and> ''ember'' \<notin> set (moves squirtle)"
proof -
  let ?round = "\<lparr>mcLeft = charmander, mcRight = squirtle, mcMove = ''ember'', mcGuard = 0\<rparr>"
  have draw: "drawMoveCompareRound rndCount starters None 0 = (Some ?round, 3)"
    by code_simp
  from drawMoveCompareRound_left_knows_right_not_unless_guard_exhausted [OF draw] draw
  show ?thesis
    by simp
qed


section \<open>Move true/false: the drawn round and its validator\<close>

lemma trueFalseLoop_sound:
  "trueFalseLoop rnd pool moveSet attempts pos = (Some round, pos')
   \<Longrightarrow> tfMove round \<noteq> [] \<and> tfIsTrue round = (tfMove round \<in> set (moves (tfFocus round)))"
proof (induction rnd pool moveSet attempts pos rule: trueFalseLoop.induct)
  case (1 rnd pool moveSet attempts pos)
  note eq = "1.prems" [unfolded trueFalseLoop.simps [of rnd pool moveSet attempts pos]]
  from eq have tries: "attempts < 80"
    by (auto split: if_splits)
  obtain pickF pos1 where pickF: "pickRandomPokemon rnd pool None pos = (pickF, pos1)"
    by (cases "pickRandomPokemon rnd pool None pos")
  with eq tries obtain pick where pick: "pickF = Some pick"
    by (cases pickF) auto
  let ?m = "pickMoveFrom rnd pick moveSet pos1"
  show ?case
  proof (cases "fst ?m = []")
    case True
    with eq tries pickF pick
    have "trueFalseLoop rnd pool moveSet (attempts + 1) (snd ?m) = (Some round, pos')"
      by (simp add: Let_def)
    with "1.IH"(1) [OF tries pickF [symmetric] pick refl True] show ?thesis
      by simp
  next
    case move: False
    show ?thesis
    proof (cases "randomCoin rnd (snd ?m)")
      case True
      with eq tries pickF pick move
      have "round = \<lparr>tfFocus = pick, tfMove = fst ?m, tfIsTrue = True\<rparr>"
        by (simp add: Let_def)
      with move pickMoveFrom_known [OF move] show ?thesis
        by simp
    next
      case coin: False
      let ?p = "pickRandomPokemon rnd pool (Some (idNum pick)) (snd ?m + 1)"
      show ?thesis
      proof (cases "fst ?p")
        case None
        with eq tries pickF pick move coin
        have "trueFalseLoop rnd pool moveSet (attempts + 1) (snd ?p) = (Some round, pos')"
          by (simp add: Let_def)
        with "1.IH"(2) [OF tries pickF [symmetric] pick refl move coin refl None]
        show ?thesis
          by simp
      next
        case (Some other)
        let ?f = "pickMoveFrom rnd other moveSet (snd ?p)"
        show ?thesis
        proof (cases "fst ?f = [] \<or> fst ?f \<in> set (moves pick)")
          case True
          with eq tries pickF pick move coin Some
          have "trueFalseLoop rnd pool moveSet (attempts + 1) (snd ?f) = (Some round, pos')"
            by (simp add: Let_def)
          with "1.IH"(3) [OF tries pickF [symmetric] pick refl move coin refl Some refl True]
          show ?thesis
            by simp
        next
          case False
          with eq tries pickF pick move coin Some
          have "round = \<lparr>tfFocus = pick, tfMove = fst ?f, tfIsTrue = False\<rparr>"
            by (simp add: Let_def)
          with False show ?thesis
            by simp
        qed
      qed
    qed
  qed
qed

text \<open>
  C3. In every drawn true/false round the statement is true exactly when the focus
  creature's move list contains the chosen move. The round that is stored holds the
  creature and the move only; the validator, on any state showing that round and for any
  submitted guess, recomputes the truth value from the move list, and so accepts the guess
  exactly when it names the truth value the generator chose.
\<close>

theorem drawTrueFalseRound_truth_is_membership:
  assumes "drawTrueFalseRound rnd pool moveSet pos = (Some round, pos')"
  shows "tfIsTrue round = (tfMove round \<in> set (moves (tfFocus round)))
         \<and> isTrueFalseCorrect
              (s\<lparr>focus := Some (tfFocus round), moveName := tfMove round, guess := Some g\<rparr>)
             = (g = (if tfMove round \<in> set (moves (tfFocus round)) then GTrue else GFalse))
         \<and> isTrueFalseCorrect
              (s\<lparr>focus := Some (tfFocus round), moveName := tfMove round, guess := Some g\<rparr>)
             = (g = (if tfIsTrue round then GTrue else GFalse))"
proof -
  from assms have "trueFalseLoop rnd pool moveSet 0 pos = (Some round, pos')"
    by (auto simp: drawTrueFalseRound_def split: if_splits)
  from trueFalseLoop_sound [OF this] show ?thesis
    by (simp add: isTrueFalseCorrect_def)
qed

theorem drawTrueFalseRound_truth_is_membership_witness:
  "drawTrueFalseRound rndCount starters None 0 =
     (Some \<lparr>tfFocus = charmander, tfMove = ''vine-whip'', tfIsTrue = False\<rparr>, 6)
   \<and> ''vine-whip'' \<notin> set (moves charmander)
   \<and> isTrueFalseCorrect
        (freshSession\<lparr>focus := Some charmander, moveName := ''vine-whip'', guess := Some GFalse\<rparr>)
   \<and> drawTrueFalseRound rndCount starters None 1 =
     (Some \<lparr>tfFocus = bulbasaur, tfMove = ''tackle'', tfIsTrue = True\<rparr>, 4)
   \<and> ''tackle'' \<in> set (moves bulbasaur)
   \<and> \<not> isTrueFalseCorrect
        (freshSession\<lparr>focus := Some bulbasaur, moveName := ''tackle'', guess := Some GFalse\<rparr>)"
proof -
  let ?false = "\<lparr>tfFocus = charmander, tfMove = ''vine-whip'', tfIsTrue = False\<rparr>"
  let ?true = "\<lparr>tfFocus = bulbasaur, tfMove = ''tackle'', tfIsTrue = True\<rparr>"
  have draw0: "drawTrueFalseRound rndCount starters None 0 = (Some ?false, 6)"
    by code_simp
  have draw1: "drawTrueFalseRound rndCount starters None 1 = (Some ?true, 4)"
    by code_simp
  from drawTrueFalseRound_truth_is_membership [OF draw0, where s = freshSession and g = GFalse]
       drawTrueFalseRound_truth_is_membership [OF draw1, where s = freshSession and g = GFalse]
       draw0 draw1
  show ?thesis
    by simp
qed




section \<open>Frame properties of the state setters and effects\<close>

lemma activeMoveSet_scores [simp]:
  "activeMoveSet (s\<lparr>score := a\<rparr>) = activeMoveSet s"
  "activeMoveSet (s\<lparr>compareScore := a\<rparr>) = activeMoveSet s"
  "activeMoveSet (s\<lparr>trueFalseScore := a\<rparr>) = activeMoveSet s"
  "activeMoveSet (s\<lparr>lastKeptId := b\<rparr>) = activeMoveSet s"
  by (simp_all add: activeMoveSet_def activeMovePool_def split: option.splits)

lemma startStatRound_frame [simp]:
  "mode (startStatRound rnd keep s) = mode s"
  "status (startStatRound rnd keep s) = status s"
  "pokemon (startStatRound rnd keep s) = pokemon s"
  "score (startStatRound rnd keep s) = score s"
  "compareScore (startStatRound rnd keep s) = compareScore s"
  "trueFalseScore (startStatRound rnd keep s) = trueFalseScore s"
  "dexScore (startStatRound rnd keep s) = dexScore s"
  "lastKeptId (startStatRound rnd keep s) = lastKeptId s"
  "statHighScore (startStatRound rnd keep s) = statHighScore s"
  "compareHighScore (startStatRound rnd keep s) = compareHighScore s"
  "trueFalseHighScore (startStatRound rnd keep s) = trueFalseHighScore s"
  "dexHighScore (startStatRound rnd keep s) = dexHighScore s"
  "localStorage (startStatRound rnd keep s) = localStorage s"
  by (simp_all add: startStatRound_def split: prod.splits option.splits)

lemma startMoveCompareRound_frame [simp]:
  "mode (startMoveCompareRound rnd s) = mode s"
  "status (startMoveCompareRound rnd s) = status s"
  "pokemon (startMoveCompareRound rnd s) = pokemon s"
  "score (startMoveCompareRound rnd s) = score s"
  "compareScore (startMoveCompareRound rnd s) = compareScore s"
  "trueFalseScore (startMoveCompareRound rnd s) = trueFalseScore s"
  "dexScore (startMoveCompareRound rnd s) = dexScore s"
  "statHighScore (startMoveCompareRound rnd s) = statHighScore s"
  "compareHighScore (startMoveCompareRound rnd s) = compareHighScore s"
  "trueFalseHighScore (startMoveCompareRound rnd s) = trueFalseHighScore s"
  "dexHighScore (startMoveCompareRound rnd s) = dexHighScore s"
  "localStorage (startMoveCompareRound rnd s) = localStorage s"
  by (simp_all add: startMoveCompareRound_def split: prod.splits option.splits)

lemma startTrueFalseRound_frame [simp]:
  "mode (startTrueFalseRound rnd s) = mode s"
  "status (startTrueFalseRound rnd s) = status s"
  "pokemon (startTrueFalseRound rnd s) = pokemon s"
  "score (startTrueFalseRound rnd s) = score s"
  "compareScore (startTrueFalseRound rnd s) = compareScore s"
  "trueFalseScore (startTrueFalseRound rnd s) = trueFalseScore s"
  "dexScore (startTrueFalseRound rnd s) = dexScore s"
  "statHighScore (startTrueFalseRound rnd s) = statHighScore s"
  "compareHighScore (startTrueFalseRound rnd s) = compareHighScore s"
  "trueFalseHighScore (startTrueFalseRound rnd s) = trueFalseHighScore s"
  "dexHighScore (startTrueFalseRound rnd s) = dexHighScore s"
  "localStorage (startTrueFalseRound rnd s) = localStorage s"
  by (simp_all add: startTrueFalseRound_def split: prod.splits option.splits)

lemma startDexRound_frame [simp]:
  "mode (startDexRound rnd s) = mode s"
  "pokemon (startDexRound rnd s) = pokemon s"
  "score (startDexRound rnd s) = score s"
  "compareScore (startDexRound rnd s) = compareScore s"
  "trueFalseScore (startDexRound rnd s) = trueFalseScore s"
  "dexScore (startDexRound rnd s) = dexScore s"
  "statHighScore (startDexRound rnd s) = statHighScore s"
  "compareHighScore (startDexRound rnd s) = compareHighScore s"
  "trueFalseHighScore (startDexRound rnd s) = trueFalseHighScore s"
  "dexHighScore (startDexRound rnd s) = dexHighScore s"
  "localStorage (startDexRound rnd s) = localStorage s"
  by (simp_all add: startDexRound_def split: prod.splits option.splits)

lemma roundStartEffect_frame [simp]:
  "mode (roundStartEffect rnd s) = mode s"
  "score (roundStartEffect rnd s) = score s"
  "compareScore (roundStartEffect rnd s) = compareScore s"
  "trueFalseScore (roundStartEffect rnd s) = trueFalseScore s"
  "dexScore (roundStartEffect rnd s) = dexScore s"
  "statHighScore (roundStartEffect rnd s) = statHighScore s"
  "compareHighScore (roundStartEffect rnd s) = compareHighScore s"
  "trueFalseHighScore (roundStartEffect rnd s) = trueFalseHighScore s"
  "dexHighScore (roundStartEffect rnd s) = dexHighScore s"
  "localStorage (roundStartEffect rnd s) = localStorage s"
  by (simp_all add: roundStartEffect_def split: Mode.splits)

lemma persistEffect_frame [simp]:
  "mode (persistEffect s) = mode s"
  "status (persistEffect s) = status s"
  "left (persistEffect s) = left s"
  "right (persistEffect s) = right s"
  "focus (persistEffect s) = focus s"
  "stat (persistEffect s) = stat s"
  "moveName (persistEffect s) = moveName s"
  "guess (persistEffect s) = guess s"
  "lastKeptId (persistEffect s) = lastKeptId s"
  "score (persistEffect s) = score s"
  "compareScore (persistEffect s) = compareScore s"
  "trueFalseScore (persistEffect s) = trueFalseScore s"
  "dexScore (persistEffect s) = dexScore s"
  "statHighScore (persistEffect s) = statHighScore s"
  "compareHighScore (persistEffect s) = compareHighScore s"
  "trueFalseHighScore (persistEffect s) = trueFalseHighScore s"
  "dexHighScore (persistEffect s) = dexHighScore s"
  by (simp_all add: persistEffect_def)

lemma scoreOf_persistEffect [simp]: "scoreOf m (persistEffect s) = scoreOf m s"
  by (simp add: scoreOf_def split: Mode.splits)

lemma highScoreOf_persistEffect [simp]: "highScoreOf m (persistEffect s) = highScoreOf m s"
  by (simp add: highScoreOf_def split: Mode.splits)

lemma highScoreOf_roundStartEffect [simp]:
  "highScoreOf m (roundStartEffect rnd s) = highScoreOf m s"
  by (simp add: highScoreOf_def split: Mode.splits)

lemma currentRound_persistEffect [simp]: "currentRound (persistEffect s) = currentRound s"
  by (simp add: currentRound_def)

lemma high_score_keys_distinct [simp]:
  "HIGH_SCORE_KEY_stat \<noteq> HIGH_SCORE_KEY_compare"
  "HIGH_SCORE_KEY_stat \<noteq> HIGH_SCORE_KEY_truefalse"
  "HIGH_SCORE_KEY_stat \<noteq> HIGH_SCORE_KEY_dex"
  "HIGH_SCORE_KEY_compare \<noteq> HIGH_SCORE_KEY_stat"
  "HIGH_SCORE_KEY_compare \<noteq> HIGH_SCORE_KEY_truefalse"
  "HIGH_SCORE_KEY_compare \<noteq> HIGH_SCORE_KEY_dex"
  "HIGH_SCORE_KEY_truefalse \<noteq> HIGH_SCORE_KEY_stat"
  "HIGH_SCORE_KEY_truefalse \<noteq> HIGH_SCORE_KEY_compare"
  "HIGH_SCORE_KEY_truefalse \<noteq> HIGH_SCORE_KEY_dex"
  "HIGH_SCORE_KEY_dex \<noteq> HIGH_SCORE_KEY_stat"
  "HIGH_SCORE_KEY_dex \<noteq> HIGH_SCORE_KEY_compare"
  "HIGH_SCORE_KEY_dex \<noteq> HIGH_SCORE_KEY_truefalse"
  by (simp_all add: HIGH_SCORE_KEY_stat_def HIGH_SCORE_KEY_compare_def
        HIGH_SCORE_KEY_truefalse_def HIGH_SCORE_KEY_dex_def)

lemma loadHighScore_persistOne:
  "loadHighScore (persistOne key v store) key' =
     (if key' = key \<and> 0 < v then v else loadHighScore store key')"
  by (simp add: loadHighScore_def persistOne_def)

text \<open>
  Writing the high scores back makes the store agree with them, provided no stored number
  was above its high score before.
\<close>

lemma persistEffect_consistent:
  assumes "storeBehind s"
  shows "storeConsistent (persistEffect s)"
  using assms
  by (simp add: storeBehind_def storeConsistent_def persistEffect_def
        loadHighScore_persistOne)

lemma storeConsistent_behind: "storeConsistent s \<Longrightarrow> storeBehind s"
  by (simp add: storeConsistent_def storeBehind_def)

lemma storeConsistent_stored: "storeConsistent s \<Longrightarrow> storedHighScore m s = highScoreOf m s"
  by (simp add: storeConsistent_def storedHighScore_def highScoreOf_def split: Mode.splits)

lemma storeBehind_roundStartEffect [simp]:
  "storeBehind (roundStartEffect rnd s) = storeBehind s"
  by (simp add: storeBehind_def)




section \<open>High scores never decrease\<close>

lemma resultTimeout_localStorage [simp]:
  "localStorage (resultTimeout rnd s) = localStorage s"
  by (simp add: resultTimeout_def Let_def split: Mode.splits option.splits)

lemma handleRestart_localStorage [simp]:
  "localStorage (handleRestart rnd s) = localStorage s"
  by (simp add: handleRestart_def Let_def split: Mode.splits)

lemma dispatch_localStorage [simp]: "localStorage (dispatch rnd ev s) = localStorage s"
  by (cases ev)
     (simp_all add: handleGuess_def handleDexSubmit_def handleModeChange_def revealDone_def
        dexTimeout_def mount_def split: option.splits)

lemma resultTimeout_highScoreOf: "highScoreOf m s \<le> highScoreOf m (resultTimeout rnd s)"
  by (cases m) (simp_all add: highScoreOf_def resultTimeout_def Let_def
                   split: Mode.splits option.splits)

lemma handleRestart_highScoreOf: "highScoreOf m (handleRestart rnd s) = highScoreOf m s"
  by (cases m) (simp_all add: highScoreOf_def handleRestart_def Let_def split: Mode.splits)

lemma mount_highScoreOf:
  "storeConsistent s
   \<Longrightarrow> highScoreOf m (mount dataset popular (localStorage s) pos) = highScoreOf m s"
  by (cases m) (simp_all add: highScoreOf_def mount_def storeConsistent_def)

lemma dispatch_highScoreOf:
  assumes "storeConsistent s"
  shows "highScoreOf m s \<le> highScoreOf m (dispatch rnd ev s)"
proof (cases ev)
  case EvRestart
  then show ?thesis
    by (simp add: handleRestart_highScoreOf)
next
  case EvResultTimeout
  then show ?thesis
    by (simp add: resultTimeout_highScoreOf)
next
  case (EvReload dataset popular)
  with assms show ?thesis
    by (simp add: mount_highScoreOf)
next
  case EvDexSubmit
  then show ?thesis
    by (cases m) (simp_all add: highScoreOf_def handleDexSubmit_def)
qed (simp_all add: highScoreOf_def handleGuess_def handleModeChange_def revealDone_def
       dexTimeout_def split: option.splits Mode.splits)

lemma step_highScoreOf:
  "storeConsistent s \<Longrightarrow> highScoreOf m s \<le> highScoreOf m (step rnd ev s)"
  by (simp add: step_def Let_def dispatch_highScoreOf)

lemma dispatch_storeBehind:
  assumes "storeConsistent s"
  shows "storeBehind (dispatch rnd ev s)"
proof -
  have "highScoreOf ModeStat s \<le> highScoreOf ModeStat (dispatch rnd ev s)"
    and "highScoreOf ModeMoveCompare s \<le> highScoreOf ModeMoveCompare (dispatch rnd ev s)"
    and "highScoreOf ModeMoveTrueFalse s \<le> highScoreOf ModeMoveTrueFalse (dispatch rnd ev s)"
    and "highScoreOf ModeDexGuess s \<le> highScoreOf ModeDexGuess (dispatch rnd ev s)"
    using assms by (rule dispatch_highScoreOf)+
  with assms show ?thesis
    by (simp add: storeBehind_def storeConsistent_def highScoreOf_def)
qed

lemma step_storeConsistent:
  assumes "storeConsistent s"
  shows "storeConsistent (step rnd ev s)"
proof -
  have "storeBehind (dispatch rnd ev s)"
    using assms by (rule dispatch_storeBehind)
  then show ?thesis
    by (simp add: step_def Let_def persistEffect_consistent)
qed

lemma run_storeConsistent: "storeConsistent s \<Longrightarrow> storeConsistent (run rnd evs s)"
  by (induction evs arbitrary: s) (simp_all add: step_storeConsistent)

lemma run_highScoreOf:
  "storeConsistent s \<Longrightarrow> highScoreOf m s \<le> highScoreOf m (run rnd evs s)"
proof (induction evs arbitrary: s)
  case Nil
  then show ?case
    by simp
next
  case (Cons ev evs)
  have "highScoreOf m s \<le> highScoreOf m (step rnd ev s)"
    using Cons.prems by (rule step_highScoreOf)
  also have "\<dots> \<le> highScoreOf m (run rnd evs (step rnd ev s))"
    using Cons.prems by (intro Cons.IH step_storeConsistent)
  finally show ?case
    by simp
qed

lemma run_append: "run rnd (evs @ evs') s = run rnd evs' (run rnd evs s)"
  by (induction evs arbitrary: s) simp_all

lemma mount_storeConsistent: "storeConsistent (mount dataset popular store pos)"
  by (simp add: storeConsistent_def mount_def)

text \<open>
  C5. Take a freshly loaded session and any sequence of events: guesses, dex input and
  submissions, restarts, mode changes, move-pool changes, timer callbacks and page reloads
  (new sessions on the same store). For every mode, the high score in memory and the
  number stored under the mode's key after the whole sequence are at least what they were
  after any initial part of it. (Each update is \<open>max prev score\<close>; a reload reads back the
  number that was written.)
\<close>

theorem high_score_never_decreases:
  "highScoreOf m (run rnd evs (mount dataset popular store pos))
     \<le> highScoreOf m (run rnd (evs @ evs') (mount dataset popular store pos))
   \<and> storedHighScore m (run rnd evs (mount dataset popular store pos))
     \<le> storedHighScore m (run rnd (evs @ evs') (mount dataset popular store pos))"
proof -
  let ?s = "run rnd evs (mount dataset popular store pos)"
  have mid: "storeConsistent ?s"
    by (intro run_storeConsistent mount_storeConsistent)
  then have fin: "storeConsistent (run rnd evs' ?s)"
    by (rule run_storeConsistent)
  have "highScoreOf m ?s \<le> highScoreOf m (run rnd evs' ?s)"
    using mid by (rule run_highScoreOf)
  with mid fin show ?thesis
    by (simp add: run_append storeConsistent_stored)
qed



theorem high_score_never_decreases_witness:
  "highScoreOf ModeStat (run rndCount [EvModeChange ModeStat] (mount (Some starters) None emptyStore 0))
     = 0
   \<and> highScoreOf ModeStat
        (run rndCount
           ([EvModeChange ModeStat]
            @ [EvGuess GRight, EvRevealDone, EvResultTimeout,
               EvGuess GRight, EvRevealDone, EvResultTimeout, EvReload (Some starters) None])
           (mount (Some starters) None emptyStore 0))
     = 1
   \<and> storedHighScore ModeStat
        (run rndCount [EvModeChange ModeStat] (mount (Some starters) None emptyStore 0))
     = 0
   \<and> storedHighScore ModeStat
        (run rndCount
           ([EvModeChange ModeStat]
            @ [EvGuess GRight, EvRevealDone, EvResultTimeout,
               EvGuess GRight, EvRevealDone, EvResultTimeout, EvReload (Some starters) None])
           (mount (Some starters) None emptyStore 0))
     = 1"
proof -
  let ?s0 = "mount (Some starters) None emptyStore 0"
  let ?evs = "[EvModeChange ModeStat]"
  let ?evs' = "[EvGuess GRight, EvRevealDone, EvResultTimeout,
                EvGuess GRight, EvRevealDone, EvResultTimeout, EvReload (Some starters) None]"
  have before: "highScoreOf ModeStat (run rndCount ?evs ?s0) = 0"
    "storedHighScore ModeStat (run rndCount ?evs ?s0) = 0"
    by code_simp+
  have after: "highScoreOf ModeStat (run rndCount (?evs @ ?evs') ?s0) = 1"
    "storedHighScore ModeStat (run rndCount (?evs @ ?evs') ?s0) = 1"
    by code_simp+
  from high_score_never_decreases [of ModeStat rndCount ?evs "Some starters" None emptyStore 0 ?evs']
       before after
  show ?thesis
    by simp
qed


section \<open>The result phase\<close>

lemma startStatRound_commute:
  "startStatRound rnd keep (s\<lparr>score := a, lastKeptId := b\<rparr>)
     = (startStatRound rnd keep s)\<lparr>score := a, lastKeptId := b\<rparr>"
  by (simp add: startStatRound_def split: prod.splits option.splits)

lemma startMoveCompareRound_commute:
  "startMoveCompareRound rnd (s\<lparr>compareScore := a\<rparr>)
     = (startMoveCompareRound rnd s)\<lparr>compareScore := a\<rparr>"
  by (simp add: startMoveCompareRound_def split: prod.splits option.splits)

lemma startTrueFalseRound_commute:
  "startTrueFalseRound rnd (s\<lparr>trueFalseScore := a\<rparr>)
     = (startTrueFalseRound rnd s)\<lparr>trueFalseScore := a\<rparr>"
  by (simp add: startTrueFalseRound_def split: prod.splits option.splits)

lemma startStatRound_left: "left s \<noteq> None \<Longrightarrow> left (startStatRound rnd keep s) \<noteq> None"
  by (simp add: startStatRound_def split: prod.splits option.splits)

lemma startMoveCompareRound_left:
  "left s \<noteq> None \<Longrightarrow> left (startMoveCompareRound rnd s) \<noteq> None"
  by (simp add: startMoveCompareRound_def split: prod.splits option.splits)

lemma startTrueFalseRound_focus:
  "focus s \<noteq> None \<Longrightarrow> focus (startTrueFalseRound rnd s) \<noteq> None"
  by (simp add: startTrueFalseRound_def split: prod.splits option.splits)

lemma roundStartEffect_round_present:
  "mode s = ModeStat \<Longrightarrow> left s \<noteq> None \<Longrightarrow> roundStartEffect rnd s = s"
  "mode s = ModeMoveCompare \<Longrightarrow> left s \<noteq> None \<Longrightarrow> roundStartEffect rnd s = s"
  "mode s = ModeMoveTrueFalse \<Longrightarrow> focus s \<noteq> None \<Longrightarrow> roundStartEffect rnd s = s"
  by (auto simp: roundStartEffect_def)

lemma roundStartEffect_not_ready: "status s \<noteq> Ready \<Longrightarrow> roundStartEffect rnd s = s"
  by (simp add: roundStartEffect_def)

lemma isStatCorrect_round:
  "isStatCorrect s \<Longrightarrow> \<exists>l r g. left s = Some l \<and> right s = Some r \<and> guess s = Some g"
  by (auto simp: isStatCorrect_def split: if_splits)

lemma isMoveCompareCorrect_round:
  "isMoveCompareCorrect s \<Longrightarrow> \<exists>l r g. left s = Some l \<and> right s = Some r \<and> guess s = Some g"
  by (auto simp: isMoveCompareCorrect_def split: option.splits)

lemma isTrueFalseCorrect_round:
  "isTrueFalseCorrect s \<Longrightarrow> \<exists>f g. focus s = Some f \<and> guess s = Some g"
  by (auto simp: isTrueFalseCorrect_def split: option.splits)

text \<open>The callback on a correct guess, mode by mode.\<close>

lemma resultTimeout_stat_correct:
  assumes "mode s = ModeStat" and "left s = Some l" and "right s = Some r"
    and "isStatCorrect s"
  shows "resultTimeout rnd s =
           (startStatRound rnd (Some (carryOf s l r)) s)
             \<lparr>score := score s + 1, lastKeptId := Some (idNum (carryOf s l r)),
              status := Ready\<rparr>"
proof -
  from assms(4) have "guess s \<noteq> None"
    by (auto dest: isStatCorrect_round)
  with assms show ?thesis
    by (simp add: resultTimeout_def Let_def startStatRound_commute)
qed

lemma resultTimeout_compare_correct:
  assumes "mode s = ModeMoveCompare" and "isMoveCompareCorrect s"
  shows "resultTimeout rnd s =
           (startMoveCompareRound rnd s)\<lparr>compareScore := compareScore s + 1, status := Ready\<rparr>"
proof -
  from assms(2) have "left s \<noteq> None \<and> right s \<noteq> None \<and> guess s \<noteq> None"
    by (auto dest: isMoveCompareCorrect_round)
  with assms show ?thesis
    by (simp add: resultTimeout_def startMoveCompareRound_commute)
qed

lemma resultTimeout_truefalse_correct:
  assumes "mode s = ModeMoveTrueFalse" and "isTrueFalseCorrect s"
  shows "resultTimeout rnd s =
           (startTrueFalseRound rnd s)
             \<lparr>trueFalseScore := trueFalseScore s + 1, status := Ready\<rparr>"
proof -
  from assms(2) have "focus s \<noteq> None \<and> guess s \<noteq> None"
    by (auto dest: isTrueFalseCorrect_round)
  with assms show ?thesis
    by (simp add: resultTimeout_def startTrueFalseRound_commute)
qed

text \<open>The callback on a wrong guess.\<close>

lemma resultTimeout_wrong:
  "mode s = ModeStat \<Longrightarrow> \<not> isStatCorrect s
   \<Longrightarrow> resultTimeout rnd s
       = s\<lparr>statHighScore := max (statHighScore s) (score s), status := Gameover\<rparr>"
  "mode s = ModeMoveCompare \<Longrightarrow> \<not> isMoveCompareCorrect s
   \<Longrightarrow> resultTimeout rnd s
       = s\<lparr>compareHighScore := max (compareHighScore s) (compareScore s), status := Gameover\<rparr>"
  "mode s = ModeMoveTrueFalse \<Longrightarrow> \<not> isTrueFalseCorrect s
   \<Longrightarrow> resultTimeout rnd s
       = s\<lparr>trueFalseHighScore := max (trueFalseHighScore s) (trueFalseScore s),
           status := Gameover\<rparr>"
  by (simp_all add: resultTimeout_def split: option.splits)

text \<open>
  After the callback the round-start effect finds either a round on display or a status
  other than \<open>ready\<close>, and does nothing.
\<close>

lemma step_resultTimeout:
  assumes "status s = Result"
    and "mode s \<in> {ModeStat, ModeMoveCompare, ModeMoveTrueFalse}"
  shows "step rnd EvResultTimeout s = persistEffect (resultTimeout rnd s)"
proof -
  have "roundStartEffect rnd (resultTimeout rnd s) = resultTimeout rnd s"
  proof (cases "verdict s")
    case True
    consider (stat) "mode s = ModeStat" | (compare) "mode s = ModeMoveCompare"
      | (truefalse) "mode s = ModeMoveTrueFalse"
      using assms(2) by auto
    then show ?thesis
    proof cases
      case stat
      with True have ok: "isStatCorrect s"
        by (simp add: verdict_def)
      then obtain l r where lr: "left s = Some l" "right s = Some r"
        by (auto dest: isStatCorrect_round)
      have "left (resultTimeout rnd s) \<noteq> None"
        using lr by (simp add: resultTimeout_stat_correct [OF stat lr ok] startStatRound_left)
      moreover have "mode (resultTimeout rnd s) = ModeStat"
        using stat by (simp add: resultTimeout_stat_correct [OF stat lr ok])
      ultimately show ?thesis
        by (simp add: roundStartEffect_round_present)
    next
      case compare
      with True have ok: "isMoveCompareCorrect s"
        by (simp add: verdict_def)
      then have "left s \<noteq> None"
        by (auto dest: isMoveCompareCorrect_round)
      then have "left (resultTimeout rnd s) \<noteq> None"
        by (simp add: resultTimeout_compare_correct [OF compare ok] startMoveCompareRound_left)
      moreover have "mode (resultTimeout rnd s) = ModeMoveCompare"
        using compare by (simp add: resultTimeout_compare_correct [OF compare ok])
      ultimately show ?thesis
        by (simp add: roundStartEffect_round_present)
    next
      case truefalse
      with True have ok: "isTrueFalseCorrect s"
        by (simp add: verdict_def)
      then have "focus s \<noteq> None"
        by (auto dest: isTrueFalseCorrect_round)
      then have "focus (resultTimeout rnd s) \<noteq> None"
        by (simp add: resultTimeout_truefalse_correct [OF truefalse ok]
              startTrueFalseRound_focus)
      moreover have "mode (resultTimeout rnd s) = ModeMoveTrueFalse"
        using truefalse by (simp add: resultTimeout_truefalse_correct [OF truefalse ok])
      ultimately show ?thesis
        by (simp add: roundStartEffect_round_present)
    qed
  next
    case False
    with assms(2) have "status (resultTimeout rnd s) = Gameover"
      by (auto simp: verdict_def resultTimeout_wrong)
    then show ?thesis
      by (simp add: roundStartEffect_not_ready)
  qed
  with assms(1) show ?thesis
    by (simp add: step_def Let_def resultTimer_def)
qed

text \<open>When a generator draws a round, its setters put that round on display and clear the guess.\<close>

lemma startStatRound_drawn:
  assumes "fst (drawStatRound rnd (pokemon s) keep (rngPos s)) = Some round"
  shows "currentRound (startStatRound rnd keep s)
           = (Some (srLeft round), srRight round, focus s, srStat round, moveName s)
         \<and> guess (startStatRound rnd keep s) = None"
  using assms
  by (cases "drawStatRound rnd (pokemon s) keep (rngPos s)")
     (simp add: startStatRound_def currentRound_def)

lemma startMoveCompareRound_drawn:
  assumes "fst (drawMoveCompareRound rnd (pokemon s) (activeMoveSet s) (rngPos s)) = Some round"
  shows "currentRound (startMoveCompareRound rnd s)
           = (Some (mcLeft round), Some (mcRight round), focus s, stat s, mcMove round)
         \<and> guess (startMoveCompareRound rnd s) = None"
  using assms
  by (cases "drawMoveCompareRound rnd (pokemon s) (activeMoveSet s) (rngPos s)")
     (simp add: startMoveCompareRound_def currentRound_def)

lemma startTrueFalseRound_drawn:
  assumes "fst (drawTrueFalseRound rnd (pokemon s) (activeMoveSet s) (rngPos s)) = Some round"
  shows "currentRound (startTrueFalseRound rnd s)
           = (left s, right s, Some (tfFocus round), stat s, tfMove round)
         \<and> guess (startTrueFalseRound rnd s) = None"
  using assms
  by (cases "drawTrueFalseRound rnd (pokemon s) (activeMoveSet s) (rngPos s)")
     (simp add: startTrueFalseRound_def currentRound_def)

lemma currentRound_frame [simp]:
  "currentRound (s\<lparr>score := a\<rparr>) = currentRound s"
  "currentRound (s\<lparr>compareScore := a\<rparr>) = currentRound s"
  "currentRound (s\<lparr>trueFalseScore := a\<rparr>) = currentRound s"
  "currentRound (s\<lparr>lastKeptId := b\<rparr>) = currentRound s"
  "currentRound (s\<lparr>status := c\<rparr>) = currentRound s"
  by (simp_all add: currentRound_def)

text \<open>
  After a correct guess, the round on display once the callback and the effects have run
  is the round the generator drew, if it drew one, and the guess is cleared.
\<close>

lemma step_resultTimeout_drawn:
  assumes "status s = Result"
    and "mode s \<in> {ModeStat, ModeMoveCompare, ModeMoveTrueFalse}"
    and "verdict s"
    and "drawnNextRound rnd s = Some q"
  shows "currentRound (step rnd EvResultTimeout s) = q
         \<and> guess (step rnd EvResultTimeout s) = None"
proof -
  have step: "step rnd EvResultTimeout s = persistEffect (resultTimeout rnd s)"
    using assms(1,2) by (rule step_resultTimeout)
  consider (stat) "mode s = ModeStat" | (compare) "mode s = ModeMoveCompare"
    | (truefalse) "mode s = ModeMoveTrueFalse"
    using assms(2) by auto
  then show ?thesis
  proof cases
    case stat
    with assms(3) have ok: "isStatCorrect s"
      by (simp add: verdict_def)
    then obtain l r where lr: "left s = Some l" "right s = Some r"
      by (auto dest: isStatCorrect_round)
    from assms(4) stat lr obtain round where
      drawn: "fst (drawStatRound rnd (pokemon s) (Some (carryOf s l r)) (rngPos s)) = Some round"
      and q: "q = (Some (srLeft round), srRight round, focus s, srStat round, moveName s)"
      by (auto simp: drawnNextRound_def)
    from startStatRound_drawn [OF drawn] q show ?thesis
      by (simp add: step resultTimeout_stat_correct [OF stat lr ok])
  next
    case compare
    with assms(3) have ok: "isMoveCompareCorrect s"
      by (simp add: verdict_def)
    from assms(4) compare obtain round where
      drawn: "fst (drawMoveCompareRound rnd (pokemon s) (activeMoveSet s) (rngPos s)) = Some round"
      and q: "q = (Some (mcLeft round), Some (mcRight round), focus s, stat s, mcMove round)"
      by (auto simp: drawnNextRound_def)
    from startMoveCompareRound_drawn [OF drawn] q show ?thesis
      by (simp add: step resultTimeout_compare_correct [OF compare ok])
  next
    case truefalse
    with assms(3) have ok: "isTrueFalseCorrect s"
      by (simp add: verdict_def)
    from assms(4) truefalse obtain round where
      drawn: "fst (drawTrueFalseRound rnd (pokemon s) (activeMoveSet s) (rngPos s)) = Some round"
      and q: "q = (left s, right s, Some (tfFocus round), stat s, tfMove round)"
      by (auto simp: drawnNextRound_def)
    from startTrueFalseRound_drawn [OF drawn] q show ?thesis
      by (simp add: step resultTimeout_truefalse_correct [OF truefalse ok])
  qed
qed

text \<open>In stat mode, on a catalog of two or more, the generator always draws a round.\<close>

lemma drawnNextRound_stat:
  assumes "mode s = ModeStat" and "isStatCorrect s" and "2 \<le> length (pokemon s)"
  shows "drawnNextRound rnd s \<noteq> None"
proof -
  from assms(2) obtain l r where lr: "left s = Some l" "right s = Some r"
    by (auto dest: isStatCorrect_round)
  from drawStatRound_keep [OF assms(3), of rnd "carryOf s l r" "rngPos s"]
  have "fst (drawStatRound rnd (pokemon s) (Some (carryOf s l r)) (rngPos s)) \<noteq> None"
    by auto
  with assms(1) lr show ?thesis
    by (simp add: drawnNextRound_def)
qed

text \<open>
  C4 as stated fails. In a move-match session the first guess is correct and, during the
  result pause, the player chooses the VGC pool, which holds no move a starter knows. When
  the pause ends the score is 1 and the status is \<open>ready\<close>, but the generator has drawn
  nothing: the question on display is the one just answered, with its guess still
  recorded, and answering it again scores once more.
\<close>

theorem result_phase_no_new_round_counterexample:
  "status compareResult = Result \<and> mode compareResult = ModeMoveCompare
   \<and> verdict compareResult \<and> compareScore compareResult = 0
   \<and> currentRound compareResult = (Some charmander, Some squirtle, None, Attack, ''ember'')
   \<and> guess compareResult = Some GLeft
   \<and> drawnNextRound rndCount compareResult = None
   \<and> status compareStale = Ready \<and> compareScore compareStale = 1
   \<and> currentRound compareStale = (Some charmander, Some squirtle, None, Attack, ''ember'')
   \<and> guess compareStale = Some GLeft
   \<and> status compareStaleAgain = Ready \<and> compareScore compareStaleAgain = 2
   \<and> currentRound compareStaleAgain = (Some charmander, Some squirtle, None, Attack, ''ember'')"
  by code_simp

text \<open>
  C4, amended. In stat, move-compare or move-true/false mode with the status \<open>result\<close>, a
  timeout of 1200 is pending. When it fires after a correct guess, the mode's score is one
  more than before and the status is \<open>ready\<close>; the mode's generator has run, and whenever
  it drew a round (in stat mode it always does on a catalog of two or more) that round is
  the question on display and the recorded guess is cleared. When it fires after a wrong
  guess, the mode's high score in memory and the number stored for it are the maximum of
  their previous value and the session score, and the status is \<open>gameover\<close>.
\<close>

theorem result_phase_after_pause:
  assumes "status s = Result"
    and "mode s \<in> {ModeStat, ModeMoveCompare, ModeMoveTrueFalse}"
    and "storeConsistent s"
  shows "resultTimer s = Some 1200
         \<and> (if verdict s
            then scoreOf (mode s) (step rnd EvResultTimeout s) = scoreOf (mode s) s + 1
                 \<and> status (step rnd EvResultTimeout s) = Ready
                 \<and> (\<forall>q. drawnNextRound rnd s = Some q
                        \<longrightarrow> currentRound (step rnd EvResultTimeout s) = q
                            \<and> guess (step rnd EvResultTimeout s) = None)
                 \<and> (mode s = ModeStat \<and> 2 \<le> length (pokemon s)
                      \<longrightarrow> drawnNextRound rnd s \<noteq> None)
            else highScoreOf (mode s) (step rnd EvResultTimeout s)
                   = max (highScoreOf (mode s) s) (scoreOf (mode s) s)
                 \<and> storedHighScore (mode s) (step rnd EvResultTimeout s)
                   = max (storedHighScore (mode s) s) (scoreOf (mode s) s)
                 \<and> status (step rnd EvResultTimeout s) = Gameover)"
proof -
  let ?s' = "step rnd EvResultTimeout s"
  have timer: "resultTimer s = Some 1200"
    using assms(1) by (simp add: resultTimer_def RESULT_PAUSE_def)
  have step: "?s' = persistEffect (resultTimeout rnd s)"
    using assms(1,2) by (rule step_resultTimeout)
  have stored: "storedHighScore (mode s) ?s' = highScoreOf (mode s) ?s'"
    using assms(3) by (intro storeConsistent_stored step_storeConsistent)
  have stored0: "storedHighScore (mode s) s = highScoreOf (mode s) s"
    using assms(3) by (rule storeConsistent_stored)
  consider (stat) "mode s = ModeStat" | (compare) "mode s = ModeMoveCompare"
    | (truefalse) "mode s = ModeMoveTrueFalse"
    using assms(2) by auto
  then have scores: "if verdict s
      then scoreOf (mode s) ?s' = scoreOf (mode s) s + 1 \<and> status ?s' = Ready
      else highScoreOf (mode s) ?s' = max (highScoreOf (mode s) s) (scoreOf (mode s) s)
           \<and> status ?s' = Gameover"
  proof cases
    case stat
    show ?thesis
    proof (cases "isStatCorrect s")
      case True
      then obtain l r where lr: "left s = Some l" "right s = Some r"
        by (auto dest: isStatCorrect_round)
      from stat True lr show ?thesis
        unfolding step
        by (simp add: verdict_def scoreOf_def resultTimeout_stat_correct [OF stat lr True])
    next
      case False
      with stat show ?thesis
        unfolding step
        by (simp add: verdict_def scoreOf_def highScoreOf_def resultTimeout_wrong)
    qed
  next
    case compare
    show ?thesis
    proof (cases "isMoveCompareCorrect s")
      case True
      with compare show ?thesis
        unfolding step
        by (simp add: verdict_def scoreOf_def resultTimeout_compare_correct)
    next
      case False
      with compare show ?thesis
        unfolding step
        by (simp add: verdict_def scoreOf_def highScoreOf_def resultTimeout_wrong)
    qed
  next
    case truefalse
    show ?thesis
    proof (cases "isTrueFalseCorrect s")
      case True
      with truefalse show ?thesis
        unfolding step
        by (simp add: verdict_def scoreOf_def resultTimeout_truefalse_correct)
    next
      case False
      with truefalse show ?thesis
        unfolding step
        by (simp add: verdict_def scoreOf_def highScoreOf_def resultTimeout_wrong)
    qed
  qed
  show ?thesis
  proof (cases "verdict s")
    case True
    have drawn: "\<forall>q. drawnNextRound rnd s = Some q
                   \<longrightarrow> currentRound ?s' = q \<and> guess ?s' = None"
      using step_resultTimeout_drawn [OF assms(1,2) True] by blast
    have total: "mode s = ModeStat \<and> 2 \<le> length (pokemon s) \<longrightarrow> drawnNextRound rnd s \<noteq> None"
    proof
      assume stat: "mode s = ModeStat \<and> 2 \<le> length (pokemon s)"
      with True have "isStatCorrect s"
        by (simp add: verdict_def)
      with stat show "drawnNextRound rnd s \<noteq> None"
        by (simp add: drawnNextRound_stat)
    qed
    from True scores timer drawn total show ?thesis
      by simp
  next
    case False
    with scores timer stored stored0 show ?thesis
      by simp
  qed
qed

theorem result_phase_after_pause_witness:
  "status statRound2Result = Result \<and> mode statRound2Result = ModeStat
   \<and> storeConsistent statRound2Result \<and> verdict statRound2Result
   \<and> score statRound2Result = 1 \<and> 2 \<le> length (pokemon statRound2Result)
   \<and> drawnNextRound rndCount statRound2Result
       = Some (Some charmander, Some squirtle, None, Hp, '''')
   \<and> score (step rndCount EvResultTimeout statRound2Result) = 2
   \<and> status (step rndCount EvResultTimeout statRound2Result) = Ready
   \<and> currentRound (step rndCount EvResultTimeout statRound2Result)
       = (Some charmander, Some squirtle, None, Hp, '''')
   \<and> guess (step rndCount EvResultTimeout statRound2Result) = None
   \<and> status statRound2Wrong = Result \<and> mode statRound2Wrong = ModeStat
   \<and> storeConsistent statRound2Wrong \<and> \<not> verdict statRound2Wrong
   \<and> score statRound2Wrong = 1 \<and> statHighScore statRound2Wrong = 0
   \<and> statHighScore (step rndCount EvResultTimeout statRound2Wrong) = 1
   \<and> loadHighScore (localStorage (step rndCount EvResultTimeout statRound2Wrong))
        HIGH_SCORE_KEY_stat = 1
   \<and> status (step rndCount EvResultTimeout statRound2Wrong) = Gameover"
proof -
  have good: "status statRound2Result = Result" "mode statRound2Result = ModeStat"
    "storeConsistent statRound2Result" "verdict statRound2Result" "score statRound2Result = 1"
    "2 \<le> length (pokemon statRound2Result)"
    "drawnNextRound rndCount statRound2Result
       = Some (Some charmander, Some squirtle, None, Hp, '''')"
    by code_simp+
  have bad: "status statRound2Wrong = Result" "mode statRound2Wrong = ModeStat"
    "storeConsistent statRound2Wrong" "\<not> verdict statRound2Wrong" "score statRound2Wrong = 1"
    "statHighScore statRound2Wrong = 0"
    "loadHighScore (localStorage statRound2Wrong) HIGH_SCORE_KEY_stat = 0"
    by code_simp+
  have "mode statRound2Result \<in> {ModeStat, ModeMoveCompare, ModeMoveTrueFalse}"
    and "mode statRound2Wrong \<in> {ModeStat, ModeMoveCompare, ModeMoveTrueFalse}"
    using good(2) bad(2) by simp_all
  from result_phase_after_pause [OF good(1) this(1) good(3), of rndCount]
       result_phase_after_pause [OF bad(1) this(2) bad(3), of rndCount]
       good bad
  show ?thesis
    by (simp add: scoreOf_def highScoreOf_def storedHighScore_def)
qed


section \<open>Stat duel: the carry-over\<close>

text \<open>
  C6 as stated fails. On the three starters the first round shows charmander against
  bulbasaur; after the correct guess the second round shows bulbasaur against charmander,
  the same pair of ids. The second round is won by the left creature, bulbasaur (id 1),
  which was already the kept one, and the id recorded afterwards is 4, charmander's, the
  loser's.
\<close>

theorem stat_carry_over_counterexample:
  "map_option idNum (left statRound1) = Some 4
   \<and> map_option idNum (right statRound1) = Some 1
   \<and> score statRound2 = 1
   \<and> map_option idNum (left statRound2) = Some 1
   \<and> map_option idNum (right statRound2) = Some 4
   \<and> lastKeptId statRound2 = Some 1
   \<and> guess statRound2Result = Some GLeft
   \<and> isStatCorrect statRound2Result
   \<and> map_option idNum (left statRound2Result) = Some 1
   \<and> score statRound3 = 2
   \<and> lastKeptId statRound3 = Some 4"
  by code_simp

text \<open>
  C6, amended. In stat-duel mode, after a correct guess on two creatures with different
  ids, the creature kept (the winner, unless the winner's id is the recorded
  \<open>lastKeptId\<close>, then the loser) is one of the pair and its id differs from the recorded
  \<open>lastKeptId\<close>; its id, not necessarily the winner's, is the id recorded next; and with a
  catalog of two or more it is the left creature of the next round, whose right creature is
  a creature of the catalog.
\<close>

theorem stat_carry_over:
  assumes "status s = Result" and "mode s = ModeStat"
    and "left s = Some l" and "right s = Some r"
    and "isStatCorrect s"
    and "idNum l \<noteq> idNum r"
    and "2 \<le> length (pokemon s)"
  shows "carryOf s l r
           = (if Some (idNum (if guess s = Some GLeft then l else r)) = lastKeptId s
              then (if guess s = Some GLeft then r else l)
              else (if guess s = Some GLeft then l else r))
         \<and> carryOf s l r \<in> {l, r}
         \<and> Some (idNum (carryOf s l r)) \<noteq> lastKeptId s
         \<and> lastKeptId (step rnd EvResultTimeout s) = Some (idNum (carryOf s l r))
         \<and> left (step rnd EvResultTimeout s) = Some (carryOf s l r)
         \<and> right (step rnd EvResultTimeout s) \<in> Some ` set (pokemon s)"
proof -
  have carry: "carryOf s l r
           = (if Some (idNum (if guess s = Some GLeft then l else r)) = lastKeptId s
              then (if guess s = Some GLeft then r else l)
              else (if guess s = Some GLeft then l else r))"
    by (simp add: carryOf_def Let_def)
  have member: "carryOf s l r \<in> {l, r}"
    by (simp add: carry)
  have fresh: "Some (idNum (carryOf s l r)) \<noteq> lastKeptId s"
    using assms(6) by (cases "lastKeptId s") (auto simp: carry)
  have "mode s \<in> {ModeStat, ModeMoveCompare, ModeMoveTrueFalse}"
    using assms(2) by simp
  with assms(1) have step: "step rnd EvResultTimeout s = persistEffect (resultTimeout rnd s)"
    by (rule step_resultTimeout)
  note timeout = resultTimeout_stat_correct [OF assms(2,3,4,5), of rnd]
  from startStatRound_keep [OF assms(7), of rnd "carryOf s l r"]
  have "lastKeptId (step rnd EvResultTimeout s) = Some (idNum (carryOf s l r))
        \<and> left (step rnd EvResultTimeout s) = Some (carryOf s l r)
        \<and> right (step rnd EvResultTimeout s) \<in> Some ` set (pokemon s)"
    by (simp add: step timeout)
  with carry member fresh show ?thesis
    by blast
qed

theorem stat_carry_over_witness:
  "status statRound2Result = Result \<and> mode statRound2Result = ModeStat
   \<and> left statRound2Result = Some bulbasaur \<and> right statRound2Result = Some charmander
   \<and> isStatCorrect statRound2Result \<and> idNum bulbasaur \<noteq> idNum charmander
   \<and> 2 \<le> length (pokemon statRound2Result)
   \<and> lastKeptId statRound2Result = Some (idNum bulbasaur)
   \<and> carryOf statRound2Result bulbasaur charmander = charmander
   \<and> lastKeptId (step rndCount EvResultTimeout statRound2Result) = Some (idNum charmander)
   \<and> left (step rndCount EvResultTimeout statRound2Result) = Some charmander"
proof -
  have pre: "status statRound2Result = Result" "mode statRound2Result = ModeStat"
    "left statRound2Result = Some bulbasaur" "right statRound2Result = Some charmander"
    "isStatCorrect statRound2Result" "idNum bulbasaur \<noteq> idNum charmander"
    "2 \<le> length (pokemon statRound2Result)"
    by code_simp+
  have more: "lastKeptId statRound2Result = Some (idNum bulbasaur)"
    "carryOf statRound2Result bulbasaur charmander = charmander"
    by code_simp+
  from stat_carry_over [OF pre, of rndCount] pre more show ?thesis
    by simp
qed


section \<open>Running scores on restart and on mode change\<close>

lemma handleRestart_mode [simp]: "mode (handleRestart rnd s) = mode s"
  by (simp add: handleRestart_def Let_def split: Mode.splits)

lemma handleRestart_resets_score: "scoreOf (mode s) (handleRestart rnd s) = 0"
  by (simp add: scoreOf_def handleRestart_def Let_def split: Mode.splits)

lemma scoreOf_roundStartEffect [simp]: "scoreOf m (roundStartEffect rnd s) = scoreOf m s"
  by (simp add: scoreOf_def split: Mode.splits)

text \<open>
  On restart the running score of the active mode is 0 and the mode is the same, both right
  after \<open>handleRestart\<close> and once the effects have run.
\<close>

lemma restart_resets_running_score:
  "scoreOf (mode s) (handleRestart rnd s) = 0
   \<and> scoreOf (mode s) (step rnd EvRestart s) = 0
   \<and> mode (step rnd EvRestart s) = mode s"
  by (simp add: step_def Let_def handleRestart_resets_score)

text \<open>
  C9: the running score of the active mode is reset to 0 on mode entry and on restart. On
  restart it is (see above); on mode entry the code does not do it. In the session below a
  stat streak with score 1 is lost (status \<open>gameover\<close>), the player goes back to the menu
  and enters the stat mode again: the status is \<open>ready\<close>, a new round is on display and the
  running score is still 1, and one more correct guess makes it 2. \<open>handleModeChange\<close>
  resets every other cell of the session but writes no score, unlike \<open>handleRestart\<close>, and
  against the page's own text (\<open>Your streak is over.\<close>, \<open>Miss once and it resets.\<close>).
\<close>

theorem mode_entry_keeps_running_score:
  "mode statLost = ModeStat \<and> status statLost = Gameover \<and> score statLost = 1
   \<and> mode statReentered = ModeStat \<and> status statReentered = Ready
   \<and> map_option idNum (left statReentered) = Some 7
   \<and> map_option idNum (right statReentered) = Some 4
   \<and> scoreOf ModeStat statReentered = 1
   \<and> status statReenteredWon = Ready
   \<and> scoreOf ModeStat statReenteredWon = 2"
  by code_simp

end
